theory Spec2Isabelle
  imports Complex_Main "HOL-Library.Sublist" "HOL-Library.AList"
begin

section \<open>The outside world: handles, exceptions and effects\<close>

text \<open>
  The three source files talk to a message broker, a key-value store and a document
  store through client libraries. A call into a library either returns or raises; what it
  does is decided outside the program, so the model takes the outcome of each call as an
  input and records the calls that were made, in order, as a list of events.
\<close>

datatype exn = Exn string
  \<comment> \<open>a raised \<open>Exception\<close>, with the text of \<open>str(e)\<close>\<close>

datatype connection = Connection nat
datatype channel = Channel nat

type_synonym bytes = string
type_synonym object_id = string

datatype datetime = Datetime nat
  \<comment> \<open>an instant, as \<open>datetime.utcnow()\<close> returns it\<close>

text \<open>
  A value of Python's \<open>json\<close> module: what \<open>json.loads\<close> returns and \<open>json.dumps\<close>
  takes. \<open>JNull\<close> is Python's \<open>None\<close>; an object is the list of its items.
\<close>

datatype json =
    JNull
  | JBool bool
  | JInt int
  | JFloat real
  | JString string
  | JArray "json list"
  | JObject "(string \<times> json) list"

text \<open>
  The library functions the code calls on data: \<open>bytes.decode()\<close>, \<open>json.loads\<close> and
  \<open>json.dumps(.., default=str)\<close>. Each returns or raises; they are parameters of the model.
\<close>

record library =
  utf8_decode :: "bytes \<Rightarrow> exn + string"
  json_loads :: "string \<Rightarrow> exn + json"
  json_dumps :: "json \<Rightarrow> exn + string"

text \<open>The pydantic models of main.py (lines 46 to 63) and the stored document.\<close>

record Item =
  name :: string
  description :: string
  price :: real
  category :: "string option"

record item_doc =
  doc_name :: string
  doc_description :: string
  doc_price :: real
  doc_category :: "string option"
  doc_created_at :: datetime

record ItemResponse =
  resp_id :: string
  resp_name :: string
  resp_description :: string
  resp_price :: real
  resp_category :: "string option"
  resp_created_at :: datetime

record NotificationMessage =
  message :: string
  item_id :: string
  timestamp :: datetime

datatype http_exception = HTTPException nat string
  \<comment> \<open>\<open>HTTPException(status_code=.., detail=..)\<close>\<close>

text \<open>
  The lines consumer.py prints while it handles a message: the header of line 17, the
  three fields of lines 18 to 20, the rule of line 21 and the error of line 34.
\<close>

datatype printed =
    ProcessingHeader
  | MessageLine json
  | ItemIdLine json
  | TimestampLine json
  | RuleLine
  | ErrorLine exn

text \<open>
  The calls made on the outside world. \<open>Publish ch n persistent key\<close> is
  \<open>ch.default_exchange.publish(Message(body=n.json().encode(), delivery_mode=PERSISTENT),
  routing_key=key)\<close>; \<open>Setex key secs doc\<close> is the store's \<open>setex\<close> with the JSON text of
  the document as its value.
\<close>

datatype event =
    ConnectRobust "nat option" "nat option"
      \<comment> \<open>\<open>aio_pika.connect_robust(URL, timeout=.., heartbeat=..)\<close>\<close>
  | OpenChannel connection
  | DeclareQueue channel string bool
  | Sleep nat
  | SetQos channel nat
  | Consume channel string
  | CloseConnection connection
  | GetQueue channel string bool
  | Publish channel NotificationMessage bool string
  | Print printed
  | Ack
  | Nack bool
  | MongoPing
  | RedisPing
  | InsertOne item_doc
  | FindOne object_id
  | Setex string nat item_doc

section \<open>main.py: the broker connection\<close>

record globals =
  rabbitmq_connection :: "connection option"
  rabbitmq_channel :: "channel option"

text \<open>How far one connection attempt gets: the three awaited calls of the \<open>try\<close> body.\<close>

datatype attempt_outcome =
    ConnectRaises exn
  | ChannelRaises connection exn
  | DeclareRaises connection channel exn
  | AttemptOk connection channel

definition max_retries :: nat where
  "max_retries = 5"

definition retry_delay :: nat where
  "retry_delay = 2"

text \<open>
  The \<open>try\<close> body of \<open>connect_rabbitmq\<close> (main.py, lines 85 to 96). The two globals are
  assigned as soon as the call on the right-hand side returns, so a later failure in the
  same attempt leaves them assigned. The result is the exception raised, if any.
\<close>

fun try_connect :: "attempt_outcome \<Rightarrow> globals \<Rightarrow> exn option \<times> globals \<times> event list" where
  "try_connect (ConnectRaises e) g =
     (Some e, g, [ConnectRobust (Some 10) (Some 600)])"
| "try_connect (ChannelRaises c e) g =
     (Some e, g\<lparr>rabbitmq_connection := Some c\<rparr>,
      [ConnectRobust (Some 10) (Some 600), OpenChannel c])"
| "try_connect (DeclareRaises c ch e) g =
     (Some e, g\<lparr>rabbitmq_connection := Some c, rabbitmq_channel := Some ch\<rparr>,
      [ConnectRobust (Some 10) (Some 600), OpenChannel c,
       DeclareQueue ch ''notifications'' True])"
| "try_connect (AttemptOk c ch) g =
     (None, g\<lparr>rabbitmq_connection := Some c, rabbitmq_channel := Some ch\<rparr>,
      [ConnectRobust (Some 10) (Some 600), OpenChannel c,
       DeclareQueue ch ''notifications'' True])"

text \<open>
  The loop \<open>for attempt in range(max_retries)\<close>. The result is what the function returns:
  \<open>Some True\<close>, \<open>Some False\<close>, or \<open>None\<close> when the loop ends without a \<open>return\<close>
  (Python then returns \<open>None\<close>).
\<close>

fun connect_loop ::
  "(nat \<Rightarrow> attempt_outcome) \<Rightarrow> nat \<Rightarrow> nat \<Rightarrow> nat list \<Rightarrow> globals
     \<Rightarrow> bool option \<times> globals \<times> event list" where
  "connect_loop env m d [] g = (None, g, [])"
| "connect_loop env m d (attempt # rest) g =
     (case try_connect (env attempt) g of
        (None, g', evs) \<Rightarrow> (Some True, g', evs)
      | (Some e, g', evs) \<Rightarrow>
          if int attempt < int m - 1
          then (case connect_loop env m d rest g' of
                  (r, g'', evs') \<Rightarrow> (r, g'', evs @ Sleep d # evs'))
          else (Some False, g', evs))"

definition connect_rabbitmq ::
  "(nat \<Rightarrow> attempt_outcome) \<Rightarrow> globals \<Rightarrow> bool option \<times> globals \<times> event list" where
  "connect_rabbitmq env g = connect_loop env max_retries retry_delay [0..<max_retries] g"

text \<open>Python truthiness of the value \<open>connect_rabbitmq\<close> returns.\<close>

fun truthy :: "bool option \<Rightarrow> bool" where
  "truthy (Some b) = b"
| "truthy None = False"

text \<open>
  The test every publishing path makes before it uses the channel
  (\<open>if not rabbitmq_channel\<close>, main.py lines 164, 293 and 320).
\<close>

definition channel_available :: "globals \<Rightarrow> bool" where
  "channel_available g = (rabbitmq_channel g \<noteq> None)"

fun attempt_ok :: "attempt_outcome \<Rightarrow> bool" where
  "attempt_ok (AttemptOk c ch) = True"
| "attempt_ok _ = False"

fun opens_channel :: "attempt_outcome \<Rightarrow> bool" where
  "opens_channel (DeclareRaises c ch e) = True"
| "opens_channel (AttemptOk c ch) = True"
| "opens_channel _ = False"

text \<open>The calls one attempt makes; they do not depend on the globals.\<close>

definition attempt_events :: "attempt_outcome \<Rightarrow> event list" where
  "attempt_events a = snd (snd (try_connect a \<lparr>rabbitmq_connection = None, rabbitmq_channel = None\<rparr>))"

fun is_connect :: "event \<Rightarrow> bool" where
  "is_connect (ConnectRobust t h) = True"
| "is_connect _ = False"

fun is_sleep :: "event \<Rightarrow> bool" where
  "is_sleep (Sleep d) = True"
| "is_sleep _ = False"

text \<open>The globals as one attempt leaves them, whether it fails or not.\<close>

definition after_attempt :: "attempt_outcome \<Rightarrow> globals \<Rightarrow> globals" where
  "after_attempt a g = fst (snd (try_connect a g))"

text \<open>Concrete worlds, used to run the model.\<close>

definition no_handles :: globals where
  "no_handles = \<lparr>rabbitmq_connection = None, rabbitmq_channel = None\<rparr>"

definition always_refused :: "nat \<Rightarrow> attempt_outcome" where
  "always_refused i = ConnectRaises (Exn ''Connection refused'')"

definition declare_always_fails :: "nat \<Rightarrow> attempt_outcome" where
  "declare_always_fails i =
     DeclareRaises (Connection i) (Channel i) (Exn ''PRECONDITION_FAILED'')"

definition third_attempt_ok :: "nat \<Rightarrow> attempt_outcome" where
  "third_attempt_ok i =
     (if i < 2 then ConnectRaises (Exn ''Connection refused'')
      else AttemptOk (Connection i) (Channel i))"

subsection \<open>The \<open>/notify\<close> endpoint\<close>

record notify_env =
  notify_reconnect :: "nat \<Rightarrow> attempt_outcome"
  notify_now :: datetime
  notify_publish :: "exn option"

datatype notify_response = NotificationSent string
  \<comment> \<open>\<open>{"status": "notification sent", "message": message}\<close>\<close>

text \<open>
  The \<open>try\<close> block of \<open>send_notification\<close> (lines 299 to 316). Reading
  \<open>default_exchange\<close> from \<open>None\<close> raises an \<open>AttributeError\<close>, which the handler turns
  into a 500 like any other exception.
\<close>

definition none_attribute_error :: "string \<Rightarrow> exn" where
  "none_attribute_error attr =
     Exn ([CHR 0x27] @ ''NoneType'' @ [CHR 0x27] @ '' object has no attribute ''
          @ [CHR 0x27] @ attr @ [CHR 0x27])"

definition publish_manual ::
  "notify_env \<Rightarrow> globals \<Rightarrow> string \<Rightarrow> (http_exception + notify_response) \<times> event list" where
  "publish_manual env g msg =
     (let notification = \<lparr>message = msg, item_id = ''manual'', timestamp = notify_now env\<rparr> in
      case rabbitmq_channel g of
        None \<Rightarrow>
          (case none_attribute_error ''default_exchange'' of
             Exn text \<Rightarrow> (Inl (HTTPException 500 (''RabbitMQ error: '' @ text)), []))
      | Some ch \<Rightarrow>
          (case notify_publish env of
             Some (Exn text) \<Rightarrow>
               (Inl (HTTPException 500 (''RabbitMQ error: '' @ text)),
                [Publish ch notification True ''notifications''])
           | None \<Rightarrow>
               (Inr (NotificationSent msg), [Publish ch notification True ''notifications''])))"

definition send_notification ::
  "notify_env \<Rightarrow> globals \<Rightarrow> string
     \<Rightarrow> (http_exception + notify_response) \<times> globals \<times> event list" where
  "send_notification env g msg =
     (if rabbitmq_channel g = None then
        (case connect_rabbitmq (notify_reconnect env) g of
           (reconnected, g', evs) \<Rightarrow>
             if \<not> truthy reconnected
             then (Inl (HTTPException 503 ''RabbitMQ not available''), g', evs)
             else (case publish_manual env g' msg of (r, evs') \<Rightarrow> (r, g', evs @ evs')))
      else (case publish_manual env g msg of (r, evs') \<Rightarrow> (r, g, evs')))"

fun is_publish :: "event \<Rightarrow> bool" where
  "is_publish (Publish ch n p k) = True"
| "is_publish _ = False"

subsection \<open>Creating an item\<close>

datatype redis_handle = RedisHandle

record create_env =
  created_now :: datetime
  insert_outcome :: "exn + object_id"
  setex_outcome :: "exn option"
  notified_now :: datetime
  publish_outcome :: "exn option"
  find_outcome :: "exn option"

definition failed_to_create :: "exn \<Rightarrow> http_exception" where
  "failed_to_create e = (case e of Exn text \<Rightarrow> HTTPException 500 (''Failed to create item: '' @ text))"

definition none_subscript_error :: exn where
  "none_subscript_error =
     Exn ([CHR 0x27] @ ''NoneType'' @ [CHR 0x27] @ '' object is not subscriptable'')"

text \<open>
  \<open>create_item\<close> (lines 144 to 191). The collection is the document store's state: a
  successful \<open>insert_one\<close> adds the document, and nothing in the function removes it.
  Every exception raised in the body reaches the one handler at the end, line 190.
\<close>

definition create_item ::
  "create_env \<Rightarrow> redis_handle option \<Rightarrow> globals \<Rightarrow> (object_id \<rightharpoonup> item_doc) \<Rightarrow> Item
     \<Rightarrow> (http_exception + ItemResponse) \<times> (object_id \<rightharpoonup> item_doc) \<times> event list" where
  "create_item env redis_client g collection item =
     (let item_dict = \<lparr>doc_name = name item, doc_description = description item,
                       doc_price = price item, doc_category = category item,
                       doc_created_at = created_now env\<rparr> in
      case insert_outcome env of
        Inl e \<Rightarrow> (Inl (failed_to_create e), collection, [InsertOne item_dict])
      | Inr oid \<Rightarrow>
          (let collection' = collection(oid \<mapsto> item_dict);
               evs1 = [InsertOne item_dict];
               cache_evs = (if redis_client \<noteq> None then [Setex (''item:'' @ oid) 3600 item_dict] else []);
               cache_exn = (if redis_client \<noteq> None then setex_outcome env else None)
           in case cache_exn of
                Some e \<Rightarrow> (Inl (failed_to_create e), collection', evs1 @ cache_evs)
              | None \<Rightarrow>
                  (let notification = \<lparr>message = ''New item created: '' @ name item,
                                         item_id = oid, timestamp = notified_now env\<rparr>;
                       pub_evs = (case rabbitmq_channel g of
                                    Some ch \<Rightarrow> [Publish ch notification True ''notifications'']
                                  | None \<Rightarrow> []);
                       pub_exn = (case rabbitmq_channel g of
                                    Some ch \<Rightarrow> publish_outcome env
                                  | None \<Rightarrow> None)
                   in case pub_exn of
                        Some e \<Rightarrow> (Inl (failed_to_create e), collection', evs1 @ cache_evs @ pub_evs)
                      | None \<Rightarrow>
                          (case find_outcome env of
                             Some e \<Rightarrow>
                               (Inl (failed_to_create e), collection',
                                evs1 @ cache_evs @ pub_evs @ [FindOne oid])
                           | None \<Rightarrow>
                               (case collection' oid of
                                  None \<Rightarrow>
                                    (Inl (failed_to_create none_subscript_error), collection',
                                     evs1 @ cache_evs @ pub_evs @ [FindOne oid])
                                | Some created_item \<Rightarrow>
                                    (Inr \<lparr>resp_id = oid,
                                          resp_name = doc_name created_item,
                                          resp_description = doc_description created_item,
                                          resp_price = doc_price created_item,
                                          resp_category = doc_category created_item,
                                          resp_created_at = doc_created_at created_item\<rparr>,
                                     collection',
                                     evs1 @ cache_evs @ pub_evs @ [FindOne oid]))))))"

subsection \<open>The health probe\<close>

record health_env =
  mongo_ping :: "exn option"
  redis_ping :: "exn option"
  is_closed :: "connection \<Rightarrow> bool"
  get_queue_outcome :: "exn option"
  health_reconnect :: "nat \<Rightarrow> attempt_outcome"
  health_reconnect_after_error :: "nat \<Rightarrow> attempt_outcome"

record health_status =
  status :: string
  services :: "string \<rightharpoonup> string"

definition error_text :: "exn \<Rightarrow> string" where
  "error_text e = (case e of Exn text \<Rightarrow> ''error: '' @ text)"

definition set_service :: "string \<Rightarrow> string \<Rightarrow> health_status \<Rightarrow> health_status" where
  "set_service k v h = h\<lparr>services := (services h)(k \<mapsto> v)\<rparr>"

definition degrade :: "health_status \<Rightarrow> health_status" where
  "degrade h = h\<lparr>status := ''degraded''\<rparr>"

definition check_mongodb :: "health_env \<Rightarrow> health_status \<Rightarrow> health_status \<times> event list" where
  "check_mongodb env h =
     (case mongo_ping env of
        None \<Rightarrow> (set_service ''mongodb'' ''connected'' h, [MongoPing])
      | Some e \<Rightarrow> (degrade (set_service ''mongodb'' (error_text e) h), [MongoPing]))"

definition check_redis ::
  "health_env \<Rightarrow> redis_handle option \<Rightarrow> health_status \<Rightarrow> health_status \<times> event list" where
  "check_redis env redis_client h =
     (if redis_client \<noteq> None then
        (case redis_ping env of
           None \<Rightarrow> (set_service ''redis'' ''connected'' h, [RedisPing])
         | Some e \<Rightarrow> (degrade (set_service ''redis'' (error_text e) h), [RedisPing]))
      else (degrade (set_service ''redis'' ''not initialized'' h), []))"

text \<open>The test of line 236: \<open>rabbitmq_connection and not rabbitmq_connection.is_closed\<close>.\<close>

definition connection_open :: "health_env \<Rightarrow> globals \<Rightarrow> bool" where
  "connection_open env g =
     (case rabbitmq_connection g of None \<Rightarrow> False | Some c \<Rightarrow> \<not> is_closed env c)"

definition check_rabbitmq ::
  "health_env \<Rightarrow> globals \<Rightarrow> health_status \<Rightarrow> health_status \<times> globals \<times> event list" where
  "check_rabbitmq env g h =
     (if connection_open env g then
        (case rabbitmq_channel g of
           Some ch \<Rightarrow>
             (case get_queue_outcome env of
                None \<Rightarrow>
                  (set_service ''rabbitmq'' ''connected'' h, g, [GetQueue ch ''notifications'' False])
              | Some e \<Rightarrow>
                  (case connect_rabbitmq (health_reconnect_after_error env) g of
                     (r, g', evs) \<Rightarrow>
                       (degrade (set_service ''rabbitmq'' (error_text e) h), g',
                        GetQueue ch ''notifications'' False # evs)))
         | None \<Rightarrow> (degrade (set_service ''rabbitmq'' ''channel not available'' h), g, []))
      else
        (case connect_rabbitmq (health_reconnect env) g of
           (reconnected, g', evs) \<Rightarrow>
             if truthy reconnected
             then (set_service ''rabbitmq'' ''reconnected'' h, g', evs)
             else (degrade (set_service ''rabbitmq'' ''disconnected'' h), g', evs)))"

definition health_check ::
  "health_env \<Rightarrow> redis_handle option \<Rightarrow> globals \<Rightarrow> health_status \<times> globals \<times> event list" where
  "health_check env redis_client g =
     (case check_mongodb env \<lparr>status = ''healthy'', services = Map.empty\<rparr> of
        (h1, evs1) \<Rightarrow>
          (case check_redis env redis_client h1 of
             (h2, evs2) \<Rightarrow>
               (case check_rabbitmq env g h2 of
                  (h3, g', evs3) \<Rightarrow> (h3, g', evs1 @ evs2 @ evs3))))"

text \<open>A world in which the broker refuses every connection.\<close>

definition refusing_notify_env :: notify_env where
  "refusing_notify_env =
     \<lparr>notify_reconnect = always_refused, notify_now = Datetime 0, notify_publish = None\<rparr>"

text \<open>The probes of the document store and of the key-value store that precede the broker's.\<close>

definition ping_events :: "redis_handle option \<Rightarrow> event list" where
  "ping_events redis_client = MongoPing # (if redis_client \<noteq> None then [RedisPing] else [])"

text \<open>A probe that finds every cached connection closed.\<close>

definition closed_health_env :: "(nat \<Rightarrow> attempt_outcome) \<Rightarrow> health_env" where
  "closed_health_env reconnect =
     \<lparr>mongo_ping = None, redis_ping = None, is_closed = (\<lambda>c. True), get_queue_outcome = None,
      health_reconnect = reconnect, health_reconnect_after_error = reconnect\<rparr>"

definition stale_handles :: globals where
  "stale_handles = \<lparr>rabbitmq_connection = Some (Connection 7), rabbitmq_channel = Some (Channel 7)\<rparr>"

text \<open>The document \<open>create_item\<close> inserts, and the response built from a stored document.\<close>

definition new_doc :: "create_env \<Rightarrow> Item \<Rightarrow> item_doc" where
  "new_doc env item =
     \<lparr>doc_name = name item, doc_description = description item, doc_price = price item,
      doc_category = category item, doc_created_at = created_now env\<rparr>"

definition created_response :: "object_id \<Rightarrow> item_doc \<Rightarrow> ItemResponse" where
  "created_response oid d =
     \<lparr>resp_id = oid, resp_name = doc_name d, resp_description = doc_description d,
      resp_price = doc_price d, resp_category = doc_category d,
      resp_created_at = doc_created_at d\<rparr>"

text \<open>The caching step of \<open>create_item\<close> does not raise: there is no client, or \<open>setex\<close> returns.\<close>

definition cache_step_ok :: "create_env \<Rightarrow> redis_handle option \<Rightarrow> bool" where
  "cache_step_ok env redis_client = (redis_client = None \<or> setex_outcome env = None)"

text \<open>A request for which the insert succeeds and the publish raises.\<close>

definition empty_collection :: "object_id \<rightharpoonup> item_doc" where
  "empty_collection = Map.empty"

definition one_channel :: globals where
  "one_channel = \<lparr>rabbitmq_connection = Some (Connection 0), rabbitmq_channel = Some (Channel 0)\<rparr>"

definition sample_item :: Item where
  "sample_item = \<lparr>name = ''pen'', description = ''a pen'', price = 2, category = None\<rparr>"

definition publish_fails_env :: create_env where
  "publish_fails_env =
     \<lparr>created_now = Datetime 1, insert_outcome = Inr ''a1'', setex_outcome = None,
      notified_now = Datetime 2, publish_outcome = Some (Exn ''channel closed''),
      find_outcome = None\<rparr>"

section \<open>consumer.py\<close>

text \<open>
  A delivered message: its payload, and what its \<open>ack()\<close> and \<open>nack()\<close> will do when
  awaited (return, or raise).
\<close>

record delivery =
  body :: bytes
  ack_outcome :: "exn option"
  nack_outcome :: "exn option"

text \<open>\<open>data.get(key, default)\<close>: only a dict has the method.\<close>

fun dict_get :: "json \<Rightarrow> string \<Rightarrow> json \<Rightarrow> exn + json" where
  "dict_get (JObject items) key dflt =
     Inr (case map_of items key of Some v \<Rightarrow> v | None \<Rightarrow> dflt)"
| "dict_get _ key dflt =
     Inl (Exn (''object has no attribute '' @ [CHR 0x27] @ ''get'' @ [CHR 0x27]))"

text \<open>
  \<open>print\<close> of one line returns or raises (the text cannot be encoded for the console, or
  the console is closed); which of the two is the console's, a parameter of the model.
\<close>

type_synonym console = "printed \<Rightarrow> exn option"

definition print_line :: "console \<Rightarrow> printed \<Rightarrow> exn option \<times> event list" where
  "print_line out p = (out p, [Print p])"

text \<open>One statement after another: the second runs only when the first did not raise.\<close>

fun then_step ::
  "exn option \<times> event list \<Rightarrow> exn option \<times> event list \<Rightarrow> exn option \<times> event list" where
  "then_step (None, evs) (r, evs') = (r, evs @ evs')"
| "then_step (Some e, evs) rest = (Some e, evs)"

text \<open>
  One of the lines 18 to 20: \<open>print(f"..{notification_data.get(key, 'N/A')}")\<close>. The
  \<open>get\<close> is evaluated first and may raise; then the line is printed.
\<close>

definition print_field ::
  "console \<Rightarrow> json \<Rightarrow> string \<Rightarrow> (json \<Rightarrow> printed) \<Rightarrow> exn option \<times> event list" where
  "print_field out notification_data key line =
     (case dict_get notification_data key (JString ''N/A'') of
        Inl e \<Rightarrow> (Some e, [])
      | Inr v \<Rightarrow> print_line out (line v))"

text \<open>
  The \<open>try\<close> body of \<open>process_message\<close> (consumer.py, lines 12 to 31): decode, parse,
  print the header, the three fields and the rule, acknowledge. Every one of these
  statements can raise. The result is the exception raised, if any.
\<close>

definition process_body :: "library \<Rightarrow> console \<Rightarrow> delivery \<Rightarrow> exn option \<times> event list" where
  "process_body lib out msg =
     (case utf8_decode lib (body msg) of
        Inl e \<Rightarrow> (Some e, [])
      | Inr decoded \<Rightarrow>
          (case json_loads lib decoded of
             Inl e \<Rightarrow> (Some e, [])
           | Inr notification_data \<Rightarrow>
               then_step (print_line out ProcessingHeader)
              (then_step (print_field out notification_data ''message'' MessageLine)
              (then_step (print_field out notification_data ''item_id'' ItemIdLine)
              (then_step (print_field out notification_data ''timestamp'' TimestampLine)
              (then_step (print_line out RuleLine)
                         (ack_outcome msg, [Ack])))))))"

text \<open>
  \<open>process_message\<close>: the handler of line 33 catches whatever the body raised, prints it
  and rejects the message with \<open>requeue=True\<close>. The handler's own two statements are not
  guarded: an exception raised by its \<open>print\<close> or by \<open>nack\<close> leaves the function. The
  result is the exception that leaves the function, if any.
\<close>

definition process_message :: "library \<Rightarrow> console \<Rightarrow> delivery \<Rightarrow> exn option \<times> event list" where
  "process_message lib out msg =
     (case process_body lib out msg of
        (None, evs) \<Rightarrow> (None, evs)
      | (Some e, evs) \<Rightarrow>
          then_step (None, evs)
            (then_step (print_line out (ErrorLine e)) (nack_outcome msg, [Nack True])))"

text \<open>The items of the object the payload decodes and parses to, if it does.\<close>

definition parsed_object :: "library \<Rightarrow> delivery \<Rightarrow> (string \<times> json) list option" where
  "parsed_object lib msg =
     (case utf8_decode lib (body msg) of
        Inl e \<Rightarrow> None
      | Inr decoded \<Rightarrow>
          (case json_loads lib decoded of
             Inr (JObject items) \<Rightarrow> Some items
           | _ \<Rightarrow> None))"

definition field_value :: "(string \<times> json) list \<Rightarrow> string \<Rightarrow> json" where
  "field_value items key = (case map_of items key of Some v \<Rightarrow> v | None \<Rightarrow> JString ''N/A'')"

text \<open>The five lines the processing logic prints for a notification.\<close>

definition processing_lines :: "(string \<times> json) list \<Rightarrow> printed list" where
  "processing_lines items =
     [ProcessingHeader, MessageLine (field_value items ''message''),
      ItemIdLine (field_value items ''item_id''),
      TimestampLine (field_value items ''timestamp''), RuleLine]"

text \<open>The processing logic completes: the payload is an object and its lines print.\<close>

definition processing_completes :: "library \<Rightarrow> console \<Rightarrow> delivery \<Rightarrow> bool" where
  "processing_completes lib out msg =
     (case parsed_object lib msg of
        None \<Rightarrow> False
      | Some items \<Rightarrow> list_all (\<lambda>p. out p = None) (processing_lines items))"

text \<open>What the handler's two statements end in, for the exception it caught.\<close>

definition handler_outcome :: "console \<Rightarrow> delivery \<Rightarrow> exn \<Rightarrow> exn option" where
  "handler_outcome out msg e =
     (case out (ErrorLine e) of Some e' \<Rightarrow> Some e' | None \<Rightarrow> nack_outcome msg)"







text \<open>Libraries and a delivery to run the handler on.\<close>

definition undecodable :: library where
  "undecodable =
     \<lparr>utf8_decode = (\<lambda>b. Inl (Exn ''invalid start byte'')),
      json_loads = (\<lambda>s. Inl (Exn ''Expecting value'')),
      json_dumps = (\<lambda>j. Inl (Exn ''not serializable''))\<rparr>"

definition parses_to :: "json \<Rightarrow> library" where
  "parses_to j =
     \<lparr>utf8_decode = Inr, json_loads = (\<lambda>s. Inr j),
      json_dumps = (\<lambda>j. Inl (Exn ''not serializable''))\<rparr>"

definition sample_delivery :: delivery where
  "sample_delivery = \<lparr>body = ''payload'', ack_outcome = None, nack_outcome = None\<rparr>"

definition nack_fails_delivery :: delivery where
  "nack_fails_delivery =
     \<lparr>body = ''payload'', ack_outcome = None, nack_outcome = Some (Exn ''channel closed'')\<rparr>"

definition console_ok :: console where
  "console_ok p = None"

definition console_rejects_message :: console where
  "console_rejects_message p =
     (case p of MessageLine v \<Rightarrow> Some (Exn ''surrogates not allowed'') | _ \<Rightarrow> None)"

definition sample_event :: json where
  "sample_event = JObject [(''message'', JString ''hi''), (''item_id'', JString ''manual'')]"

section \<open>redis_utils.py\<close>

subsection \<open>Decimal text of integers\<close>

text \<open>
  The store keeps a counter as the decimal text of its value; \<open>get\<close> returns that text
  and \<open>get_counter\<close> reads it back with \<open>int(result)\<close>.
\<close>

definition digit_char :: "nat \<Rightarrow> char" where
  "digit_char d = ''0123456789'' ! d"

definition digit_value :: "char \<Rightarrow> nat option" where
  "digit_value c = (if c \<in> set ''0123456789'' then Some (of_char c - 48) else None)"

definition is_digit :: "char \<Rightarrow> bool" where
  "is_digit c = (digit_value c \<noteq> None)"

fun nat_digits :: "nat \<Rightarrow> string" where
  "nat_digits n = (if n < 10 then [digit_char n] else nat_digits (n div 10) @ [digit_char (n mod 10)])"

declare nat_digits.simps [simp del]

definition show_int :: "int \<Rightarrow> string" where
  "show_int i = (if i < 0 then CHR ''-'' # nat_digits (nat (- i)) else nat_digits (nat i))"

text \<open>
  Python's \<open>int(b)\<close> on bytes, base 10: surrounding whitespace is dropped, one sign is
  allowed, and the rest is digits, with single underscores allowed between digits.
\<close>

definition is_space :: "char \<Rightarrow> bool" where
  "is_space c = (c \<in> set [CHR '' '', CHR 0x09, CHR 0x0A, CHR 0x0B, CHR 0x0C, CHR 0x0D])"

definition strip :: "string \<Rightarrow> string" where
  "strip s = rev (dropWhile is_space (rev (dropWhile is_space s)))"

fun no_double_underscore :: "string \<Rightarrow> bool" where
  "no_double_underscore (a # b # cs) =
     (\<not> (a = CHR ''_'' \<and> b = CHR ''_'') \<and> no_double_underscore (b # cs))"
| "no_double_underscore _ = True"

definition valid_digits :: "string \<Rightarrow> bool" where
  "valid_digits s =
     (s \<noteq> [] \<and> is_digit (hd s) \<and> is_digit (last s) \<and>
      list_all (\<lambda>c. is_digit c \<or> c = CHR ''_'') s \<and> no_double_underscore s)"

definition digits_value :: "string \<Rightarrow> nat" where
  "digits_value s =
     foldl (\<lambda>acc c. case digit_value c of Some d \<Rightarrow> 10 * acc + d | None \<Rightarrow> acc) 0 s"

definition invalid_literal :: exn where
  "invalid_literal = Exn ''invalid literal for int() with base 10''"

definition py_int :: "bytes \<Rightarrow> exn + int" where
  "py_int b =
     (case strip b of
        [] \<Rightarrow> Inl invalid_literal
      | c # cs \<Rightarrow>
          if c = CHR ''-'' then
            (if valid_digits cs then Inr (- int (digits_value cs)) else Inl invalid_literal)
          else if c = CHR ''+'' then
            (if valid_digits cs then Inr (int (digits_value cs)) else Inl invalid_literal)
          else
            (if valid_digits (c # cs) then Inr (int (digits_value (c # cs)))
             else Inl invalid_literal))"

subsection \<open>The key-value server\<close>

text \<open>
  The server behind the client, for the commands the manager sends. It is reachable or
  not; when it is not, every command raises a connection error in the client. The
  entries are the keys with their values and the expiry times are in seconds; how the
  server matches a glob pattern and what \<open>INFO\<close> replies are parameters.
\<close>

record redis_server =
  reachable :: bool
  entries :: "(string \<times> bytes) list"
  expiry :: "(string \<times> int) list"
  glob_match :: "string \<Rightarrow> string \<Rightarrow> bool"
  info_reply :: "(string \<times> json) list"

definition connection_error :: exn where
  "connection_error = Exn ''Error connecting to the server''"

definition int64 :: "int \<Rightarrow> bool" where
  "int64 i = (- (2 ^ 63) \<le> i \<and> i < 2 ^ 63)"

text \<open>The server reads a value as an integer only in its canonical decimal form.\<close>

definition redis_int :: "bytes \<Rightarrow> int option" where
  "redis_int v =
     (case py_int v of
        Inr n \<Rightarrow> if show_int n = v \<and> int64 n then Some n else None
      | Inl e \<Rightarrow> None)"

definition redis_ping_cmd :: "redis_server \<Rightarrow> exn option" where
  "redis_ping_cmd srv = (if reachable srv then None else Some connection_error)"


definition redis_get :: "redis_server \<Rightarrow> string \<Rightarrow> exn + bytes option" where
  "redis_get srv key =
     (if \<not> reachable srv then Inl connection_error else Inr (map_of (entries srv) key))"


text \<open>\<open>INCRBY\<close>: a missing key counts as 0; the new value is stored as decimal text.\<close>

definition redis_incrby :: "redis_server \<Rightarrow> string \<Rightarrow> int \<Rightarrow> exn + int \<times> redis_server" where
  "redis_incrby srv key amount =
     (if \<not> reachable srv then Inl connection_error
      else if \<not> int64 amount then Inl (Exn ''value is not an integer or out of range'')
      else
        (case (case map_of (entries srv) key of None \<Rightarrow> Some 0 | Some v \<Rightarrow> redis_int v) of
           None \<Rightarrow> Inl (Exn ''value is not an integer or out of range'')
         | Some n \<Rightarrow>
             if \<not> int64 (n + amount) then Inl (Exn ''increment or decrement would overflow'')
             else Inr (n + amount,
                       srv\<lparr>entries := AList.update key (show_int (n + amount)) (entries srv)\<rparr>)))"



subsection \<open>\<open>RedisManager\<close>\<close>

text \<open>
  The manager's one field, \<open>self.redis_client\<close>: \<open>None\<close> until \<open>connect\<close> assigns it.
  Every method tests it first, then runs its body in a \<open>try\<close> whose handler returns the
  fallback value. A method that writes returns the client with the server's new state.
\<close>

type_synonym redis_client = "redis_server option"

definition redis_connect :: "exn + redis_server \<Rightarrow> redis_client \<Rightarrow> bool \<times> redis_client" where
  "redis_connect from_url client =
     (case from_url of
        Inl e \<Rightarrow> (False, client)
      | Inr srv \<Rightarrow> (case redis_ping_cmd srv of None \<Rightarrow> (True, Some srv) | Some e \<Rightarrow> (False, Some srv)))"






definition set_counter :: "redis_client \<Rightarrow> string \<Rightarrow> int \<Rightarrow> int option \<times> redis_client" where
  "set_counter client counter_name amount =
     (case client of
        None \<Rightarrow> (None, client)
      | Some srv \<Rightarrow>
          (case redis_incrby srv (''counter:'' @ counter_name) amount of
             Inl e \<Rightarrow> (None, client)
           | Inr (n, srv') \<Rightarrow> (Some n, Some srv')))"

definition get_counter :: "redis_client \<Rightarrow> string \<Rightarrow> int option" where
  "get_counter client counter_name =
     (case client of
        None \<Rightarrow> None
      | Some srv \<Rightarrow>
          (case redis_get srv (''counter:'' @ counter_name) of
             Inl e \<Rightarrow> None
           | Inr None \<Rightarrow> Some 0
           | Inr (Some v) \<Rightarrow>
               if v = [] then Some 0
               else (case py_int v of Inl e \<Rightarrow> None | Inr n \<Rightarrow> Some n)))"









definition sample_server :: "bool \<Rightarrow> (string \<times> bytes) list \<Rightarrow> redis_server" where
  "sample_server up kvs =
     \<lparr>reachable = up, entries = kvs, expiry = [], glob_match = (\<lambda>p k. True), info_reply = []\<rparr>"

text \<open>What the server holds for a counter, read as \<open>INCRBY\<close> reads it.\<close>

definition counter_reading :: "redis_server \<Rightarrow> string \<Rightarrow> int option" where
  "counter_reading srv counter_name =
     (case map_of (entries srv) (''counter:'' @ counter_name) of
        None \<Rightarrow> Some 0
      | Some v \<Rightarrow> redis_int v)"

text \<open>
  The broker counts as connected for the probe when the tests of lines 236 and 238 both
  pass: a connection is cached and not closed, and a channel is cached.
\<close>

definition broker_connected :: "health_env \<Rightarrow> globals \<Rightarrow> bool" where
  "broker_connected env g = (connection_open env g \<and> channel_available g)"

text \<open>A broker that accepts the transport connection and then fails to open a channel.\<close>

definition channel_always_fails :: "nat \<Rightarrow> attempt_outcome" where
  "channel_always_fails i = ChannelRaises (Connection i) (Exn ''channel error'')"

definition open_health_env :: "(nat \<Rightarrow> attempt_outcome) \<Rightarrow> health_env" where
  "open_health_env reconnect =
     \<lparr>mongo_ping = None, redis_ping = None, is_closed = (\<lambda>c. False), get_queue_outcome = None,
      health_reconnect = reconnect, health_reconnect_after_error = reconnect\<rparr>"

definition half_open :: globals where
  "half_open = \<lparr>rabbitmq_connection = Some (Connection 4), rabbitmq_channel = None\<rparr>"





section \<open>Properties\<close>

subsection \<open>The bounded retry of \<open>connect_rabbitmq\<close>\<close>

lemma try_connect_events: "snd (snd (try_connect a g)) = attempt_events a"
  by (cases a) (simp_all add: attempt_events_def)

lemma try_connect_fail: "\<not> attempt_ok a \<Longrightarrow> fst (try_connect a g) \<noteq> None"
  by (cases a) simp_all

lemma try_connect_ok: "attempt_ok a \<Longrightarrow> fst (try_connect a g) = None"
  by (cases a) simp_all

lemma try_connect_split:
  "try_connect a g = (if attempt_ok a then None else fst (try_connect a g), after_attempt a g, attempt_events a)"
  by (cases a) (simp_all add: after_attempt_def attempt_events_def)

lemma connect_loop_all_fail:
  "k < m \<Longrightarrow> \<forall>i. k \<le> i \<and> i < m \<longrightarrow> \<not> attempt_ok (env i) \<Longrightarrow>
   connect_loop env m d [k..<m] g =
     (Some False, foldl (\<lambda>g i. after_attempt (env i) g) g [k..<m],
      concat (map (\<lambda>i. attempt_events (env i) @ (if i < m - 1 then [Sleep d] else [])) [k..<m]))"
proof (induction "m - k" arbitrary: k g)
  case 0
  then show ?case by simp
next
  case (Suc n)
  have up: "[k..<m] = k # [Suc k..<m]" using Suc.prems(1) by (simp add: upt_conv_Cons)
  have nk: "\<not> attempt_ok (env k)" using Suc.prems by simp
  obtain e where e: "fst (try_connect (env k) g) = Some e"
    using try_connect_fail[OF nk, of g] by auto
  have tc: "try_connect (env k) g = (Some e, after_attempt (env k) g, attempt_events (env k))"
    using e try_connect_split[of "env k" g] nk by simp
  show ?case
  proof (cases "Suc k < m")
    case True
    have n: "n = m - Suc k" using Suc.hyps(2) by simp
    have ih: "connect_loop env m d [Suc k..<m] (after_attempt (env k) g) =
      (Some False, foldl (\<lambda>g i. after_attempt (env i) g) (after_attempt (env k) g) [Suc k..<m],
      concat (map (\<lambda>i. attempt_events (env i) @ (if i < m - 1 then [Sleep d] else [])) [Suc k..<m]))"
      using Suc.hyps(1)[OF n True] Suc.prems(2) by simp
    have lt: "int k < int m - 1" using True by simp
    have lt': "k < m - 1" using True by simp
    show ?thesis
      unfolding up using lt' by (simp add: tc ih lt)
  next
    case False
    then have km: "m = Suc k" using Suc.prems(1) by simp
    show ?thesis unfolding up by (simp add: tc km)
  qed
qed

lemma connect_loop_success:
  "n < m \<Longrightarrow> k \<le> n \<Longrightarrow> \<forall>i. k \<le> i \<and> i < n \<longrightarrow> \<not> attempt_ok (env i) \<Longrightarrow> attempt_ok (env n) \<Longrightarrow>
   connect_loop env m d [k..<m] g =
     (Some True, after_attempt (env n) (foldl (\<lambda>g i. after_attempt (env i) g) g [k..<n]),
      concat (map (\<lambda>i. attempt_events (env i) @ [Sleep d]) [k..<n]) @ attempt_events (env n))"
proof (induction "n - k" arbitrary: k g)
  case 0
  then have kn: "k = n" by simp
  have up: "[n..<m] = n # [Suc n..<m]" using 0 by (simp add: upt_conv_Cons)
  have tc: "try_connect (env n) g = (None, after_attempt (env n) g, attempt_events (env n))"
    using try_connect_split[of "env n" g] 0 by simp
  show ?case unfolding kn up by (simp add: tc)
next
  case (Suc j)
  then have kn: "k < n" by simp
  then have km: "k < m" using Suc.prems by simp
  have up: "[k..<m] = k # [Suc k..<m]" using km by (simp add: upt_conv_Cons)
  have up2: "[k..<n] = k # [Suc k..<n]" using kn by (simp add: upt_conv_Cons)
  have nk: "\<not> attempt_ok (env k)" using Suc.prems kn by simp
  obtain e where e: "fst (try_connect (env k) g) = Some e"
    using try_connect_fail[OF nk, of g] by auto
  have tc: "try_connect (env k) g = (Some e, after_attempt (env k) g, attempt_events (env k))"
    using e try_connect_split[of "env k" g] nk by simp
  have j: "j = n - Suc k" using Suc.hyps(2) by simp
  have ih: "connect_loop env m d [Suc k..<m] (after_attempt (env k) g) =
     (Some True, after_attempt (env n) (foldl (\<lambda>g i. after_attempt (env i) g) (after_attempt (env k) g) [Suc k..<n]),
      concat (map (\<lambda>i. attempt_events (env i) @ [Sleep d]) [Suc k..<n]) @ attempt_events (env n))"
    using Suc.hyps(1)[OF j Suc.prems(1)] kn Suc.prems by simp
  have lt: "int k < int m - 1" using kn Suc.prems(1) by simp
  show ?case unfolding up up2 by (simp add: tc ih lt)
qed


lemma filter_connect_attempt:
  "filter is_connect (attempt_events a) = [ConnectRobust (Some 10) (Some 600)]"
  by (cases a) (simp_all add: attempt_events_def)

lemma filter_sleep_attempt: "filter is_sleep (attempt_events a) = []"
  by (cases a) (simp_all add: attempt_events_def)

lemma filter_connect_trace:
  "filter is_connect (concat (map (\<lambda>i. attempt_events (env i) @ (if P i then [Sleep d] else [])) xs))
     = replicate (length xs) (ConnectRobust (Some 10) (Some 600))"
  by (induction xs) (simp_all add: filter_connect_attempt)

lemma filter_sleep_trace:
  "filter is_sleep (concat (map (\<lambda>i. attempt_events (env i) @ (if P i then [Sleep d] else [])) xs))
     = replicate (length (filter P xs)) (Sleep d)"
  by (induction xs) (simp_all add: filter_sleep_attempt)

lemma after_attempt_channel:
  "channel_available (after_attempt a g) \<longleftrightarrow> channel_available g \<or> opens_channel a"
  by (cases a) (simp_all add: after_attempt_def channel_available_def)

lemma foldl_after_attempt_channel:
  "channel_available (foldl (\<lambda>g i. after_attempt (env i) g) g xs)
     \<longleftrightarrow> channel_available g \<or> (\<exists>i\<in>set xs. opens_channel (env i))"
  by (induction xs arbitrary: g) (auto simp: after_attempt_channel)

lemma filter_lt_upt: "filter (\<lambda>i. i < m - 1) [0..<m] = [0..<m - 1]"
  by (induction m) (auto)

lemma after_attempt_ok:
  "after_attempt (AttemptOk c ch) g = g\<lparr>rabbitmq_connection := Some c, rabbitmq_channel := Some ch\<rparr>"
  by (simp add: after_attempt_def)

lemma connect_rabbitmq_all_fail:
  assumes "\<forall>i<max_retries. \<not> attempt_ok (env i)"
  shows "connect_rabbitmq env g =
     (Some False, foldl (\<lambda>g i. after_attempt (env i) g) g [0..<max_retries],
      concat (map (\<lambda>i. attempt_events (env i) @ (if i < max_retries - 1 then [Sleep retry_delay] else []))
        [0..<max_retries]))"
  unfolding connect_rabbitmq_def
  by (rule connect_loop_all_fail) (use assms in \<open>simp_all add: max_retries_def\<close>)

lemma connect_rabbitmq_success:
  assumes "n < max_retries" "\<forall>i<n. \<not> attempt_ok (env i)" "attempt_ok (env n)"
  shows "connect_rabbitmq env g =
     (Some True, after_attempt (env n) (foldl (\<lambda>g i. after_attempt (env i) g) g [0..<n]),
      concat (map (\<lambda>i. attempt_events (env i) @ [Sleep retry_delay]) [0..<n]) @ attempt_events (env n))"
  unfolding connect_rabbitmq_def
  by (rule connect_loop_success) (use assms in simp_all)

lemma filter_connect_prefix:
  "filter is_connect (concat (map (\<lambda>i. attempt_events (env i) @ [Sleep d]) xs))
     = replicate (length xs) (ConnectRobust (Some 10) (Some 600))"
  using filter_connect_trace [of env "\<lambda>i. True" d xs] by simp

lemma filter_sleep_prefix:
  "filter is_sleep (concat (map (\<lambda>i. attempt_events (env i) @ [Sleep d]) xs))
     = replicate (length xs) (Sleep d)"
  using filter_sleep_trace [of env "\<lambda>i. True" d xs] by simp

text \<open>
  Claim C1, as the code has it. When every attempt of a run of \<open>connect_rabbitmq\<close> fails, the
  run makes exactly five attempts, each with connect timeout 10 and heartbeat 600, sleeps
  for two time units between consecutive attempts (four sleeps, none after the last) and
  returns \<open>False\<close>. It never clears the cached handles: afterwards a channel handle is
  cached exactly when one was cached before or one of the failed attempts got as far as
  opening a channel. When attempt \<open>n + 1\<close> succeeds after \<open>n < 5\<close> failures, the run returns
  \<open>True\<close> after \<open>n + 1\<close> attempts and \<open>n\<close> sleeps, and the connection and channel of that
  attempt are the cached handles.
\<close>

theorem connect_rabbitmq_bounded_retry:
  "((\<forall>i<max_retries. \<not> attempt_ok (env i)) \<longrightarrow>
      fst (connect_rabbitmq env g) = Some False \<and>
      snd (snd (connect_rabbitmq env g)) =
        concat (map (\<lambda>i. attempt_events (env i) @ (if i < max_retries - 1 then [Sleep retry_delay] else []))
          [0..<max_retries]) \<and>
      filter is_connect (snd (snd (connect_rabbitmq env g))) = replicate 5 (ConnectRobust (Some 10) (Some 600)) \<and>
      filter is_sleep (snd (snd (connect_rabbitmq env g))) = replicate 4 (Sleep 2) \<and>
      (channel_available (fst (snd (connect_rabbitmq env g))) \<longleftrightarrow>
         channel_available g \<or> (\<exists>i<max_retries. opens_channel (env i))))
   \<and>
   (n < max_retries \<and> (\<forall>i<n. \<not> attempt_ok (env i)) \<and> env n = AttemptOk c ch \<longrightarrow>
      fst (connect_rabbitmq env g) = Some True \<and>
      rabbitmq_connection (fst (snd (connect_rabbitmq env g))) = Some c \<and>
      rabbitmq_channel (fst (snd (connect_rabbitmq env g))) = Some ch \<and>
      channel_available (fst (snd (connect_rabbitmq env g))) \<and>
      filter is_connect (snd (snd (connect_rabbitmq env g))) = replicate (Suc n) (ConnectRobust (Some 10) (Some 600)) \<and>
      filter is_sleep (snd (snd (connect_rabbitmq env g))) = replicate n (Sleep 2))"
proof (intro conjI impI)
  assume fails: "\<forall>i<max_retries. \<not> attempt_ok (env i)"
  note eq = connect_rabbitmq_all_fail [OF fails, of g]
  show "fst (connect_rabbitmq env g) = Some False" by (simp add: eq)
  show "snd (snd (connect_rabbitmq env g)) =
        concat (map (\<lambda>i. attempt_events (env i) @ (if i < max_retries - 1 then [Sleep retry_delay] else []))
          [0..<max_retries])" by (simp add: eq)
  show "filter is_connect (snd (snd (connect_rabbitmq env g))) = replicate 5 (ConnectRobust (Some 10) (Some 600))"
    unfolding eq snd_conv filter_connect_trace by (simp add: max_retries_def)
  show "filter is_sleep (snd (snd (connect_rabbitmq env g))) = replicate 4 (Sleep 2)"
    unfolding eq snd_conv filter_sleep_trace filter_lt_upt by (simp add: max_retries_def retry_delay_def)
  show "channel_available (fst (snd (connect_rabbitmq env g))) \<longleftrightarrow>
         channel_available g \<or> (\<exists>i<max_retries. opens_channel (env i))"
    unfolding eq snd_conv fst_conv foldl_after_attempt_channel by auto
next
  assume h: "n < max_retries \<and> (\<forall>i<n. \<not> attempt_ok (env i)) \<and> env n = AttemptOk c ch"
  then have ok: "attempt_ok (env n)" by simp
  from h have n: "n < max_retries" and f: "\<forall>i<n. \<not> attempt_ok (env i)" and en: "env n = AttemptOk c ch"
    by simp_all
  note eq = connect_rabbitmq_success [OF n f ok, of g]
  show "fst (connect_rabbitmq env g) = Some True" by (simp add: eq)
  show "rabbitmq_connection (fst (snd (connect_rabbitmq env g))) = Some c"
    unfolding eq snd_conv fst_conv en after_attempt_ok by simp
  show "rabbitmq_channel (fst (snd (connect_rabbitmq env g))) = Some ch"
    unfolding eq snd_conv fst_conv en after_attempt_ok by simp
  show "channel_available (fst (snd (connect_rabbitmq env g)))"
    unfolding eq snd_conv fst_conv en after_attempt_ok by (simp add: channel_available_def)
  show "filter is_connect (snd (snd (connect_rabbitmq env g))) = replicate (Suc n) (ConnectRobust (Some 10) (Some 600))"
    unfolding eq snd_conv filter_append filter_connect_prefix filter_connect_attempt
    by (simp add: replicate_append_same)
  show "filter is_sleep (snd (snd (connect_rabbitmq env g))) = replicate n (Sleep 2)"
    unfolding eq snd_conv filter_append filter_sleep_prefix filter_sleep_attempt
    by (simp add: retry_delay_def)
qed

theorem connect_rabbitmq_bounded_retry_witness:
  "fst (connect_rabbitmq always_refused no_handles) = Some False \<and>
   length (filter is_connect (snd (snd (connect_rabbitmq always_refused no_handles)))) = 5 \<and>
   length (filter is_sleep (snd (snd (connect_rabbitmq always_refused no_handles)))) = 4 \<and>
   \<not> channel_available (fst (snd (connect_rabbitmq always_refused no_handles))) \<and>
   fst (connect_rabbitmq third_attempt_ok no_handles) = Some True \<and>
   rabbitmq_channel (fst (snd (connect_rabbitmq third_attempt_ok no_handles))) = Some (Channel 2) \<and>
   length (filter is_connect (snd (snd (connect_rabbitmq third_attempt_ok no_handles)))) = 3 \<and>
   length (filter is_sleep (snd (snd (connect_rabbitmq third_attempt_ok no_handles)))) = 2"
proof -
  have a: "\<forall>i<max_retries. \<not> attempt_ok (always_refused i)"
    by (simp add: always_refused_def)
  have b: "2 < max_retries \<and> (\<forall>i<2. \<not> attempt_ok (third_attempt_ok i)) \<and>
           third_attempt_ok 2 = AttemptOk (Connection 2) (Channel 2)"
    by (simp add: max_retries_def third_attempt_ok_def)
  have c: "\<not> channel_available no_handles" by (simp add: channel_available_def no_handles_def)
  have d: "\<not> (\<exists>i<max_retries. opens_channel (always_refused i))" by (simp add: always_refused_def)
  from connect_rabbitmq_bounded_retry [of always_refused no_handles 0 "Connection 0" "Channel 0"] a c d
  have "fst (connect_rabbitmq always_refused no_handles) = Some False \<and>
   filter is_connect (snd (snd (connect_rabbitmq always_refused no_handles))) =
     replicate 5 (ConnectRobust (Some 10) (Some 600)) \<and>
   filter is_sleep (snd (snd (connect_rabbitmq always_refused no_handles))) = replicate 4 (Sleep 2) \<and>
   \<not> channel_available (fst (snd (connect_rabbitmq always_refused no_handles)))"
    by blast
  then have 1: "fst (connect_rabbitmq always_refused no_handles) = Some False \<and>
   length (filter is_connect (snd (snd (connect_rabbitmq always_refused no_handles)))) = 5 \<and>
   length (filter is_sleep (snd (snd (connect_rabbitmq always_refused no_handles)))) = 4 \<and>
   \<not> channel_available (fst (snd (connect_rabbitmq always_refused no_handles)))"
    by simp
  from connect_rabbitmq_bounded_retry [of third_attempt_ok no_handles 2 "Connection 2" "Channel 2"] b
  have "fst (connect_rabbitmq third_attempt_ok no_handles) = Some True \<and>
   rabbitmq_channel (fst (snd (connect_rabbitmq third_attempt_ok no_handles))) = Some (Channel 2) \<and>
   filter is_connect (snd (snd (connect_rabbitmq third_attempt_ok no_handles))) =
     replicate (Suc 2) (ConnectRobust (Some 10) (Some 600)) \<and>
   filter is_sleep (snd (snd (connect_rabbitmq third_attempt_ok no_handles))) = replicate 2 (Sleep 2)"
    by blast
  then have 2: "fst (connect_rabbitmq third_attempt_ok no_handles) = Some True \<and>
   rabbitmq_channel (fst (snd (connect_rabbitmq third_attempt_ok no_handles))) = Some (Channel 2) \<and>
   length (filter is_connect (snd (snd (connect_rabbitmq third_attempt_ok no_handles)))) = 3 \<and>
   length (filter is_sleep (snd (snd (connect_rabbitmq third_attempt_ok no_handles)))) = 2"
    by simp
  from 1 2 show ?thesis by simp
qed

text \<open>
  A run in which all five attempts fail at the queue declaration returns \<open>False\<close> and yet
  leaves the fifth attempt's connection and channel cached, where none was cached before.
\<close>

theorem connect_rabbitmq_failed_yet_cached:
  "list_all (Not \<circ> attempt_ok \<circ> declare_always_fails) [0, 1, 2, 3, 4] \<and>
   \<not> channel_available no_handles \<and>
   fst (connect_rabbitmq declare_always_fails no_handles) = Some False \<and>
   channel_available (fst (snd (connect_rabbitmq declare_always_fails no_handles))) \<and>
   fst (snd (connect_rabbitmq declare_always_fails no_handles)) =
     \<lparr>rabbitmq_connection = Some (Connection 4), rabbitmq_channel = Some (Channel 4)\<rparr>"
  by (simp add: connect_rabbitmq_def max_retries_def retry_delay_def declare_always_fails_def
      no_handles_def channel_available_def upt_conv_Cons)

subsection \<open>Publishing by hand: \<open>send_notification\<close>\<close>

lemma connect_loop_connects:
  "length (filter is_connect (snd (snd (connect_loop env m d xs g)))) \<le> length xs"
proof (induction xs arbitrary: g)
  case Nil
  then show ?case by simp
next
  case (Cons a xs)
  obtain r g' evs where tc: "try_connect (env a) g = (r, g', evs)"
    by (cases "try_connect (env a) g") auto
  have evs: "evs = attempt_events (env a)"
    using try_connect_events [of "env a" g] tc by simp
  obtain r2 g2 evs2 where cl: "connect_loop env m d xs g' = (r2, g2, evs2)"
    by (cases "connect_loop env m d xs g'") auto
  have ih: "length (filter is_connect evs2) \<le> length xs"
    using Cons.IH [of g'] cl by simp
  show ?case
    using ih by (cases r) (simp_all add: tc cl evs filter_connect_attempt)
qed

lemma connect_loop_no_publish:
  "filter is_publish (snd (snd (connect_loop env m d xs g))) = []"
proof (induction xs arbitrary: g)
  case Nil
  then show ?case by simp
next
  case (Cons a xs)
  obtain r g' evs where tc: "try_connect (env a) g = (r, g', evs)"
    by (cases "try_connect (env a) g") auto
  have evs: "filter is_publish evs = []"
    using tc by (cases "env a") auto
  obtain r2 g2 evs2 where cl: "connect_loop env m d xs g' = (r2, g2, evs2)"
    by (cases "connect_loop env m d xs g'") auto
  have ih: "filter is_publish evs2 = []"
    using Cons.IH [of g'] cl by simp
  show ?case
    using ih by (cases r) (simp_all add: tc cl evs)
qed

lemma connect_rabbitmq_connects:
  "length (filter is_connect (snd (snd (connect_rabbitmq env g)))) \<le> max_retries"
  unfolding connect_rabbitmq_def using connect_loop_connects [of env max_retries retry_delay "[0..<max_retries]" g]
  by simp

lemma connect_rabbitmq_no_publish:
  "filter is_publish (snd (snd (connect_rabbitmq env g))) = []"
  unfolding connect_rabbitmq_def by (rule connect_loop_no_publish)

lemma publish_manual_once:
  "length (filter is_publish (snd (publish_manual env g msg))) \<le> 1 \<and>
   filter is_connect (snd (publish_manual env g msg)) = []"
  by (simp add: publish_manual_def none_attribute_error_def Let_def split: option.splits exn.splits)

text \<open>
  Claim C3. When no channel is cached and the reconnection fails, \<open>send_notification\<close>
  raises the 503 \<open>RabbitMQ not available\<close>, publishes nothing, and all it has done is the
  one run of \<open>connect_rabbitmq\<close>. In every run it publishes at most once and opens at most
  \<open>max_retries\<close> transport connections, those of that one run: it has no retry of its own.
\<close>

theorem send_notification_unavailable:
  "(rabbitmq_channel g = None \<and> \<not> truthy (fst (connect_rabbitmq (notify_reconnect env) g)) \<longrightarrow>
      fst (send_notification env g msg) = Inl (HTTPException 503 ''RabbitMQ not available'') \<and>
      filter is_publish (snd (snd (send_notification env g msg))) = [] \<and>
      snd (snd (send_notification env g msg)) = snd (snd (connect_rabbitmq (notify_reconnect env) g))) \<and>
   length (filter is_publish (snd (snd (send_notification env g msg)))) \<le> 1 \<and>
   length (filter is_connect (snd (snd (send_notification env g msg)))) \<le> max_retries"
proof -
  obtain r g' evs where c: "connect_rabbitmq (notify_reconnect env) g = (r, g', evs)"
    by (cases "connect_rabbitmq (notify_reconnect env) g") auto
  have np: "filter is_publish evs = []"
    using connect_rabbitmq_no_publish [of "notify_reconnect env" g] c by simp
  have nc: "length (filter is_connect evs) \<le> max_retries"
    using connect_rabbitmq_connects [of "notify_reconnect env" g] c by simp
  obtain p pe where p: "publish_manual env g' msg = (p, pe)"
    by (cases "publish_manual env g' msg") auto
  have pp: "length (filter is_publish pe) \<le> 1" "filter is_connect pe = []"
    using publish_manual_once [of env g' msg] p by simp_all
  obtain q qe where q: "publish_manual env g msg = (q, qe)"
    by (cases "publish_manual env g msg") auto
  have qq: "length (filter is_publish qe) \<le> 1" "filter is_connect qe = []"
    using publish_manual_once [of env g msg] q by simp_all
  show ?thesis
    using np nc pp qq by (simp add: send_notification_def c p q)
qed

theorem send_notification_unavailable_witness:
  "rabbitmq_channel no_handles = None \<and>
   \<not> truthy (fst (connect_rabbitmq (notify_reconnect refusing_notify_env) no_handles)) \<and>
   fst (send_notification refusing_notify_env no_handles ''hello'')
     = Inl (HTTPException 503 ''RabbitMQ not available'') \<and>
   filter is_publish (snd (snd (send_notification refusing_notify_env no_handles ''hello''))) = []"
proof -
  have a: "rabbitmq_channel no_handles = None" by (simp add: no_handles_def)
  have b: "\<not> truthy (fst (connect_rabbitmq (notify_reconnect refusing_notify_env) no_handles))"
    by (simp add: refusing_notify_env_def connect_rabbitmq_def max_retries_def retry_delay_def
        always_refused_def upt_conv_Cons)
  from send_notification_unavailable [of no_handles refusing_notify_env "''hello''"] a b
  show ?thesis by blast
qed

subsection \<open>The health probe\<close>

lemma check_mongodb_events: "snd (check_mongodb env h) = [MongoPing]"
  by (simp add: check_mongodb_def split: option.splits)

lemma check_redis_events:
  "snd (check_redis env rc h) = (if rc \<noteq> None then [RedisPing] else [])"
  by (simp add: check_redis_def split: option.splits)

lemma check_rabbitmq_closed:
  assumes "\<not> connection_open env g"
  shows "check_rabbitmq env g h =
     (if truthy (fst (connect_rabbitmq (health_reconnect env) g))
      then set_service ''rabbitmq'' ''reconnected'' h
      else degrade (set_service ''rabbitmq'' ''disconnected'' h),
      fst (snd (connect_rabbitmq (health_reconnect env) g)),
      snd (snd (connect_rabbitmq (health_reconnect env) g)))"
  using assms by (simp add: check_rabbitmq_def split: prod.splits)

lemma health_check_closed:
  "\<not> connection_open env g \<longrightarrow>
     services (fst (health_check env rc g)) ''rabbitmq'' =
       Some (if truthy (fst (connect_rabbitmq (health_reconnect env) g))
             then ''reconnected'' else ''disconnected'') \<and>
     (\<not> truthy (fst (connect_rabbitmq (health_reconnect env) g)) \<longrightarrow>
        status (fst (health_check env rc g)) = ''degraded'') \<and>
     fst (snd (health_check env rc g)) = fst (snd (connect_rabbitmq (health_reconnect env) g)) \<and>
     snd (snd (health_check env rc g)) =
       ping_events rc @ snd (snd (connect_rabbitmq (health_reconnect env) g)) \<and>
     length (filter is_connect (snd (snd (health_check env rc g)))) \<le> max_retries"
proof
  assume closed: "\<not> connection_open env g"
  obtain h1 e1 where m: "check_mongodb env \<lparr>status = ''healthy'', services = Map.empty\<rparr> = (h1, e1)"
    by (cases "check_mongodb env \<lparr>status = ''healthy'', services = Map.empty\<rparr>") auto
  have e1: "e1 = [MongoPing]"
    using check_mongodb_events [of env "\<lparr>status = ''healthy'', services = Map.empty\<rparr>"] m by simp
  obtain h2 e2 where r: "check_redis env rc h1 = (h2, e2)"
    by (cases "check_redis env rc h1") auto
  have e2: "e2 = (if rc \<noteq> None then [RedisPing] else [])"
    using check_redis_events [of env rc h1] r by simp
  obtain ok g' evs where c: "connect_rabbitmq (health_reconnect env) g = (ok, g', evs)"
    by (cases "connect_rabbitmq (health_reconnect env) g") auto
  have rb: "check_rabbitmq env g h2 =
     (if truthy ok then set_service ''rabbitmq'' ''reconnected'' h2
      else degrade (set_service ''rabbitmq'' ''disconnected'' h2), g', evs)"
    using check_rabbitmq_closed [OF closed, of h2] c by simp
  have nc: "length (filter is_connect evs) \<le> max_retries"
    using connect_rabbitmq_connects [of "health_reconnect env" g] c by simp
  show "services (fst (health_check env rc g)) ''rabbitmq'' =
       Some (if truthy (fst (connect_rabbitmq (health_reconnect env) g))
             then ''reconnected'' else ''disconnected'') \<and>
     (\<not> truthy (fst (connect_rabbitmq (health_reconnect env) g)) \<longrightarrow>
        status (fst (health_check env rc g)) = ''degraded'') \<and>
     fst (snd (health_check env rc g)) = fst (snd (connect_rabbitmq (health_reconnect env) g)) \<and>
     snd (snd (health_check env rc g)) =
       ping_events rc @ snd (snd (connect_rabbitmq (health_reconnect env) g)) \<and>
     length (filter is_connect (snd (snd (health_check env rc g)))) \<le> max_retries"
    using nc
    by (simp add: health_check_def m r rb c e1 e2 ping_events_def set_service_def degrade_def)
qed

lemma health_check_no_channel:
  assumes "connection_open env g" "\<not> channel_available g"
  shows "services (fst (health_check env rc g)) ''rabbitmq'' = Some ''channel not available'' \<and>
     status (fst (health_check env rc g)) = ''degraded'' \<and>
     fst (snd (health_check env rc g)) = g \<and>
     snd (snd (health_check env rc g)) = ping_events rc"
proof -
  obtain h1 e1 where m: "check_mongodb env \<lparr>status = ''healthy'', services = Map.empty\<rparr> = (h1, e1)"
    by (cases "check_mongodb env \<lparr>status = ''healthy'', services = Map.empty\<rparr>") auto
  have e1: "e1 = [MongoPing]"
    using check_mongodb_events [of env "\<lparr>status = ''healthy'', services = Map.empty\<rparr>"] m by simp
  obtain h2 e2 where r: "check_redis env rc h1 = (h2, e2)"
    by (cases "check_redis env rc h1") auto
  have e2: "e2 = (if rc \<noteq> None then [RedisPing] else [])"
    using check_redis_events [of env rc h1] r by simp
  have ch: "rabbitmq_channel g = None" using assms(2) by (simp add: channel_available_def)
  have rb: "check_rabbitmq env g h2 =
     (degrade (set_service ''rabbitmq'' ''channel not available'' h2), g, [])"
    using assms(1) by (simp add: check_rabbitmq_def ch)
  show ?thesis
    by (simp add: health_check_def m r rb e1 e2 ping_events_def set_service_def degrade_def)
qed

text \<open>
  Claim C6, as the code has it. The broker is not connected for the probe in two ways.
  When no connection is cached or the cached one is closed, \<open>health_check\<close> runs
  \<open>connect_rabbitmq\<close> once: after the two pings its events are those of that single run,
  the globals are the ones the run leaves, and it reports \<open>reconnected\<close> when the run
  returns true and \<open>disconnected\<close> with the overall status \<open>degraded\<close> when it does not.
  When a connection is cached and open but no channel is cached, it does not run
  \<open>connect_rabbitmq\<close> at all: it reports \<open>channel not available\<close> with the overall status
  \<open>degraded\<close>, makes no call on the broker and leaves the globals as they are.
\<close>

theorem health_check_reconnects_once:
  "(\<not> broker_connected env g \<longleftrightarrow>
      \<not> connection_open env g \<or> (connection_open env g \<and> \<not> channel_available g)) \<and>
   (\<not> connection_open env g \<longrightarrow>
      services (fst (health_check env rc g)) ''rabbitmq'' =
        Some (if truthy (fst (connect_rabbitmq (health_reconnect env) g))
              then ''reconnected'' else ''disconnected'') \<and>
      (\<not> truthy (fst (connect_rabbitmq (health_reconnect env) g)) \<longrightarrow>
         status (fst (health_check env rc g)) = ''degraded'') \<and>
      fst (snd (health_check env rc g)) = fst (snd (connect_rabbitmq (health_reconnect env) g)) \<and>
      snd (snd (health_check env rc g)) =
        ping_events rc @ snd (snd (connect_rabbitmq (health_reconnect env) g)) \<and>
      length (filter is_connect (snd (snd (health_check env rc g)))) \<le> max_retries) \<and>
   (connection_open env g \<and> \<not> channel_available g \<longrightarrow>
      services (fst (health_check env rc g)) ''rabbitmq'' = Some ''channel not available'' \<and>
      status (fst (health_check env rc g)) = ''degraded'' \<and>
      fst (snd (health_check env rc g)) = g \<and>
      snd (snd (health_check env rc g)) = ping_events rc \<and>
      filter is_connect (snd (snd (health_check env rc g))) = [])"
proof (intro conjI)
  show "\<not> broker_connected env g \<longleftrightarrow>
      \<not> connection_open env g \<or> (connection_open env g \<and> \<not> channel_available g)"
    by (auto simp: broker_connected_def)
  show "\<not> connection_open env g \<longrightarrow>
      services (fst (health_check env rc g)) ''rabbitmq'' =
        Some (if truthy (fst (connect_rabbitmq (health_reconnect env) g))
              then ''reconnected'' else ''disconnected'') \<and>
      (\<not> truthy (fst (connect_rabbitmq (health_reconnect env) g)) \<longrightarrow>
         status (fst (health_check env rc g)) = ''degraded'') \<and>
      fst (snd (health_check env rc g)) = fst (snd (connect_rabbitmq (health_reconnect env) g)) \<and>
      snd (snd (health_check env rc g)) =
        ping_events rc @ snd (snd (connect_rabbitmq (health_reconnect env) g)) \<and>
      length (filter is_connect (snd (snd (health_check env rc g)))) \<le> max_retries"
    by (rule health_check_closed)
  show "connection_open env g \<and> \<not> channel_available g \<longrightarrow>
      services (fst (health_check env rc g)) ''rabbitmq'' = Some ''channel not available'' \<and>
      status (fst (health_check env rc g)) = ''degraded'' \<and>
      fst (snd (health_check env rc g)) = g \<and>
      snd (snd (health_check env rc g)) = ping_events rc \<and>
      filter is_connect (snd (snd (health_check env rc g))) = []"
  proof
    assume h: "connection_open env g \<and> \<not> channel_available g"
    then have n: "services (fst (health_check env rc g)) ''rabbitmq'' = Some ''channel not available'' \<and>
      status (fst (health_check env rc g)) = ''degraded'' \<and>
      fst (snd (health_check env rc g)) = g \<and>
      snd (snd (health_check env rc g)) = ping_events rc"
      using health_check_no_channel [of env g rc] by blast
    then have "filter is_connect (snd (snd (health_check env rc g))) = []"
      by (simp add: ping_events_def)
    with n show "services (fst (health_check env rc g)) ''rabbitmq'' = Some ''channel not available'' \<and>
      status (fst (health_check env rc g)) = ''degraded'' \<and>
      fst (snd (health_check env rc g)) = g \<and>
      snd (snd (health_check env rc g)) = ping_events rc \<and>
      filter is_connect (snd (snd (health_check env rc g))) = []"
      by blast
  qed
qed

theorem health_check_reconnects_once_witness:
  "\<not> connection_open (closed_health_env always_refused) stale_handles \<and>
   services (fst (health_check (closed_health_env always_refused) (Some RedisHandle) stale_handles))
     ''rabbitmq'' = Some ''disconnected'' \<and>
   status (fst (health_check (closed_health_env always_refused) (Some RedisHandle) stale_handles))
     = ''degraded'' \<and>
   \<not> connection_open (closed_health_env third_attempt_ok) no_handles \<and>
   services (fst (health_check (closed_health_env third_attempt_ok) (Some RedisHandle) no_handles))
     ''rabbitmq'' = Some ''reconnected'' \<and>
   connection_open (open_health_env third_attempt_ok) half_open \<and>
   \<not> channel_available half_open \<and>
   services (fst (health_check (open_health_env third_attempt_ok) (Some RedisHandle) half_open))
     ''rabbitmq'' = Some ''channel not available'' \<and>
   snd (snd (health_check (open_health_env third_attempt_ok) (Some RedisHandle) half_open))
     = [MongoPing, RedisPing]"
proof -
  have a: "\<not> connection_open (closed_health_env always_refused) stale_handles"
    by (simp add: connection_open_def closed_health_env_def stale_handles_def)
  have b: "\<not> truthy (fst (connect_rabbitmq (health_reconnect (closed_health_env always_refused)) stale_handles))"
    by (simp add: closed_health_env_def connect_rabbitmq_def max_retries_def retry_delay_def
        always_refused_def upt_conv_Cons)
  have c: "\<not> connection_open (closed_health_env third_attempt_ok) no_handles"
    by (simp add: connection_open_def closed_health_env_def no_handles_def)
  have d: "truthy (fst (connect_rabbitmq (health_reconnect (closed_health_env third_attempt_ok)) no_handles))"
    by (simp add: closed_health_env_def connect_rabbitmq_def max_retries_def retry_delay_def
        third_attempt_ok_def upt_conv_Cons)
  have e: "connection_open (open_health_env third_attempt_ok) half_open"
    by (simp add: connection_open_def open_health_env_def half_open_def)
  have f: "\<not> channel_available half_open"
    by (simp add: channel_available_def half_open_def)
  from health_check_reconnects_once [of "closed_health_env always_refused" stale_handles "Some RedisHandle"] a b
  have 1: "services (fst (health_check (closed_health_env always_refused) (Some RedisHandle) stale_handles))
     ''rabbitmq'' = Some ''disconnected'' \<and>
   status (fst (health_check (closed_health_env always_refused) (Some RedisHandle) stale_handles))
     = ''degraded''"
    by simp
  from health_check_reconnects_once [of "closed_health_env third_attempt_ok" no_handles "Some RedisHandle"] c d
  have 2: "services (fst (health_check (closed_health_env third_attempt_ok) (Some RedisHandle) no_handles))
     ''rabbitmq'' = Some ''reconnected''"
    by simp
  from health_check_reconnects_once [of "open_health_env third_attempt_ok" half_open "Some RedisHandle"] e f
  have 3: "services (fst (health_check (open_health_env third_attempt_ok) (Some RedisHandle) half_open))
     ''rabbitmq'' = Some ''channel not available'' \<and>
   snd (snd (health_check (open_health_env third_attempt_ok) (Some RedisHandle) half_open))
     = ping_events (Some RedisHandle)"
    by simp
  from a c e f 1 2 3 show ?thesis by (simp add: ping_events_def)
qed

text \<open>
  A run of \<open>connect_rabbitmq\<close> in which \<open>channel()\<close> raises on every attempt leaves a
  connection cached and no channel. The broker is then not connected, and the probe
  reports \<open>channel not available\<close> without a single call of \<open>connect_robust\<close>.
\<close>

theorem health_check_no_reconnect_without_channel:
  "fst (snd (connect_rabbitmq channel_always_fails no_handles)) = half_open \<and>
   \<not> broker_connected (open_health_env always_refused) half_open \<and>
   services (fst (health_check (open_health_env always_refused) None half_open)) ''rabbitmq''
     = Some ''channel not available'' \<and>
   status (fst (health_check (open_health_env always_refused) None half_open)) = ''degraded'' \<and>
   filter is_connect (snd (snd (health_check (open_health_env always_refused) None half_open))) = [] \<and>
   fst (snd (health_check (open_health_env always_refused) None half_open)) = half_open"
  by (simp add: connect_rabbitmq_def max_retries_def retry_delay_def channel_always_fails_def
      no_handles_def half_open_def upt_conv_Cons broker_connected_def connection_open_def
      channel_available_def open_health_env_def health_check_def check_mongodb_def
      check_redis_def check_rabbitmq_def set_service_def degrade_def)

subsection \<open>Creating an item\<close>

lemma create_item_committed:
  "insert_outcome env = Inr oid \<Longrightarrow>
   fst (snd (create_item env rc g coll item)) = coll(oid \<mapsto> new_doc env item)"
  by (simp add: create_item_def Let_def new_doc_def split: option.splits)

lemma create_item_publish_raises:
  "insert_outcome env = Inr oid \<Longrightarrow> cache_step_ok env rc \<Longrightarrow> rabbitmq_channel g = Some ch \<Longrightarrow>
   publish_outcome env = Some e \<Longrightarrow>
   fst (create_item env rc g coll item) = Inl (failed_to_create e)"
  by (auto simp add: create_item_def Let_def cache_step_ok_def)

lemma create_item_no_channel:
  "insert_outcome env = Inr oid \<Longrightarrow> rabbitmq_channel g = None \<Longrightarrow>
   filter is_publish (snd (snd (create_item env rc g coll item))) = []"
  by (simp add: create_item_def Let_def split: option.splits)

lemma create_item_no_channel_ok:
  "insert_outcome env = Inr oid \<Longrightarrow> rabbitmq_channel g = None \<Longrightarrow> cache_step_ok env rc \<Longrightarrow>
   find_outcome env = None \<Longrightarrow>
   fst (create_item env rc g coll item) = Inr (created_response oid (new_doc env item))"
  by (auto simp add: create_item_def Let_def cache_step_ok_def new_doc_def created_response_def)

text \<open>
  Claim C4, as the code has it. When the insert succeeds the document is in the collection
  when \<open>create_item\<close> ends, whatever happens afterwards. A publish that raises does not
  undo the insert, but it reaches the handler of line 190 and the caller receives a 500
  \<open>Failed to create item\<close>. When no channel is cached nothing is published, and the caller
  receives the created item provided the caching step and the read-back do not raise.
\<close>

theorem create_item_publish_error:
  "insert_outcome env = Inr oid \<longrightarrow>
     fst (snd (create_item env rc g coll item)) oid = Some (new_doc env item) \<and>
     (cache_step_ok env rc \<and> rabbitmq_channel g = Some ch \<and> publish_outcome env = Some e \<longrightarrow>
        fst (create_item env rc g coll item) = Inl (failed_to_create e)) \<and>
     (rabbitmq_channel g = None \<longrightarrow>
        filter is_publish (snd (snd (create_item env rc g coll item))) = [] \<and>
        (cache_step_ok env rc \<and> find_outcome env = None \<longrightarrow>
           fst (create_item env rc g coll item) = Inr (created_response oid (new_doc env item))))"
  using create_item_committed [of env oid rc g coll item]
    create_item_publish_raises [of env oid rc g ch e coll item]
    create_item_no_channel [of env oid g rc coll item]
    create_item_no_channel_ok [of env oid g rc coll item]
  by simp

theorem create_item_publish_error_witness:
  "insert_outcome publish_fails_env = Inr ''a1'' \<and>
   fst (snd (create_item publish_fails_env None one_channel empty_collection sample_item)) ''a1''
     = Some (new_doc publish_fails_env sample_item) \<and>
   fst (create_item publish_fails_env None one_channel empty_collection sample_item)
     = Inl (failed_to_create (Exn ''channel closed'')) \<and>
   filter is_publish (snd (snd (create_item publish_fails_env None no_handles empty_collection sample_item))) = [] \<and>
   fst (create_item publish_fails_env None no_handles empty_collection sample_item)
     = Inr (created_response ''a1'' (new_doc publish_fails_env sample_item))"
proof -
  have a: "insert_outcome publish_fails_env = Inr ''a1''" by (simp add: publish_fails_env_def)
  have b: "cache_step_ok publish_fails_env None" by (simp add: cache_step_ok_def)
  have c: "rabbitmq_channel one_channel = Some (Channel 0)" by (simp add: one_channel_def)
  have d: "publish_outcome publish_fails_env = Some (Exn ''channel closed'')"
    by (simp add: publish_fails_env_def)
  have e: "rabbitmq_channel no_handles = None" by (simp add: no_handles_def)
  have f: "find_outcome publish_fails_env = None" by (simp add: publish_fails_env_def)
  from create_item_publish_error [of publish_fails_env "''a1''" None one_channel empty_collection
      sample_item "Channel 0" "Exn ''channel closed''"] a b c d
  have 1: "fst (snd (create_item publish_fails_env None one_channel empty_collection sample_item)) ''a1''
     = Some (new_doc publish_fails_env sample_item) \<and>
   fst (create_item publish_fails_env None one_channel empty_collection sample_item)
     = Inl (failed_to_create (Exn ''channel closed''))"
    by blast
  from create_item_publish_error [of publish_fails_env "''a1''" None no_handles empty_collection
      sample_item "Channel 0" "Exn ''channel closed''"] a b e f
  have 2: "filter is_publish (snd (snd (create_item publish_fails_env None no_handles empty_collection sample_item))) = [] \<and>
   fst (create_item publish_fails_env None no_handles empty_collection sample_item)
     = Inr (created_response ''a1'' (new_doc publish_fails_env sample_item))"
    by blast
  from a 1 2 show ?thesis by simp
qed

text \<open>
  The insert succeeds, a channel is cached and the publish raises: the caller receives a
  500, not the created item, while the document stays in the collection.
\<close>

theorem create_item_publish_error_is_fatal:
  "insert_outcome publish_fails_env = Inr ''a1'' \<and>
   rabbitmq_channel one_channel = Some (Channel 0) \<and>
   publish_outcome publish_fails_env = Some (Exn ''channel closed'') \<and>
   fst (create_item publish_fails_env None one_channel empty_collection sample_item)
     = Inl (HTTPException 500 ''Failed to create item: channel closed'') \<and>
   fst (snd (create_item publish_fails_env None one_channel empty_collection sample_item)) ''a1''
     = Some \<lparr>doc_name = ''pen'', doc_description = ''a pen'', doc_price = 2,
             doc_category = None, doc_created_at = Datetime 1\<rparr>"
  by (simp add: create_item_def publish_fails_env_def one_channel_def empty_collection_def
      sample_item_def failed_to_create_def Let_def)

subsection \<open>The consumer: dispatch and start\<close>

lemma dict_get_items:
  "dict_get (JObject items) key (JString ''N/A'') = Inr (field_value items key)"
  by (simp add: field_value_def)

lemma dict_get_other: "\<forall>items. j \<noteq> JObject items \<Longrightarrow> \<exists>e. dict_get j key dflt = Inl e"
  by (cases j) simp_all

lemma then_step_events: "snd (then_step (r, evs) rest) = evs @ (if r = None then snd rest else [])"
  by (cases r; cases rest) simp_all

lemma then_step_raises:
  "fst (then_step a b) = None \<longleftrightarrow> fst a = None \<and> fst b = None"
  by (cases a; cases b; cases "fst a") auto

lemma process_body_undecodable:
  "utf8_decode lib (body msg) = Inl e \<Longrightarrow> process_body lib out msg = (Some e, [])"
  by (simp add: process_body_def)

lemma process_body_unparsable:
  "utf8_decode lib (body msg) = Inr decoded \<Longrightarrow> json_loads lib decoded = Inl e \<Longrightarrow>
   process_body lib out msg = (Some e, [])"
  by (simp add: process_body_def)

lemma process_body_no_object:
  assumes "utf8_decode lib (body msg) = Inr decoded" "json_loads lib decoded = Inr j"
    "\<forall>items. j \<noteq> JObject items"
  shows "fst (process_body lib out msg) \<noteq> None \<and> Ack \<notin> set (snd (process_body lib out msg))"
proof -
  obtain e where e: "dict_get j ''message'' (JString ''N/A'') = Inl e"
    using dict_get_other [OF assms(3)] by blast
  show ?thesis
    by (cases "out ProcessingHeader")
      (simp_all add: process_body_def assms(1,2) print_line_def print_field_def e)
qed

lemma process_body_object:
  assumes "utf8_decode lib (body msg) = Inr decoded" "json_loads lib decoded = Inr (JObject items)"
  shows "process_body lib out msg =
           then_step (print_line out ProcessingHeader)
          (then_step (print_line out (MessageLine (field_value items ''message'')))
          (then_step (print_line out (ItemIdLine (field_value items ''item_id'')))
          (then_step (print_line out (TimestampLine (field_value items ''timestamp'')))
          (then_step (print_line out RuleLine) (ack_outcome msg, [Ack])))))"
  by (simp add: process_body_def assms print_field_def dict_get_items del: dict_get.simps)

lemma process_body_completes:
  assumes "parsed_object lib msg = Some items" "list_all (\<lambda>p. out p = None) (processing_lines items)"
  shows "process_body lib out msg = (ack_outcome msg, map Print (processing_lines items) @ [Ack])"
proof -
  from assms(1) obtain decoded where
    d: "utf8_decode lib (body msg) = Inr decoded" "json_loads lib decoded = Inr (JObject items)"
    by (auto simp: parsed_object_def split: sum.splits json.splits)
  show ?thesis
    using assms(2) unfolding process_body_object [OF d]
    by (simp add: processing_lines_def print_line_def)
qed

lemma process_body_print_raises:
  assumes "parsed_object lib msg = Some items" "\<not> list_all (\<lambda>p. out p = None) (processing_lines items)"
  shows "fst (process_body lib out msg) \<noteq> None \<and> Ack \<notin> set (snd (process_body lib out msg))"
proof -
  from assms(1) obtain decoded where
    d: "utf8_decode lib (body msg) = Inr decoded" "json_loads lib decoded = Inr (JObject items)"
    by (auto simp: parsed_object_def split: sum.splits json.splits)
  show ?thesis
    using assms(2) unfolding process_body_object [OF d]
    by (cases "out ProcessingHeader"; cases "out (MessageLine (field_value items ''message''))";
        cases "out (ItemIdLine (field_value items ''item_id''))";
        cases "out (TimestampLine (field_value items ''timestamp''))"; cases "out RuleLine")
      (simp_all add: processing_lines_def print_line_def)
qed

lemma process_body_incomplete:
  assumes "\<not> processing_completes lib out msg"
  shows "fst (process_body lib out msg) \<noteq> None \<and> Ack \<notin> set (snd (process_body lib out msg))"
proof (cases "parsed_object lib msg")
  case (Some items)
  with assms have "\<not> list_all (\<lambda>p. out p = None) (processing_lines items)"
    by (simp add: processing_completes_def)
  then show ?thesis using process_body_print_raises [OF Some] by blast
next
  case None
  show ?thesis
  proof (cases "utf8_decode lib (body msg)")
    case (Inl e)
    then show ?thesis by (simp add: process_body_undecodable)
  next
    case (Inr decoded)
    note d = this
    show ?thesis
    proof (cases "json_loads lib decoded")
      case (Inl e)
      then show ?thesis by (simp add: process_body_unparsable [OF d])
    next
      case (Inr j)
      with None d have "\<forall>items. j \<noteq> JObject items"
        by (auto simp: parsed_object_def)
      then show ?thesis using process_body_no_object [OF d Inr] by blast
    qed
  qed
qed

lemma process_message_handler:
  assumes "fst (process_body lib out msg) = Some e"
  shows "process_message lib out msg =
     (handler_outcome out msg e,
      snd (process_body lib out msg) @ Print (ErrorLine e) #
        (if out (ErrorLine e) = None then [Nack True] else []))"
proof -
  obtain evs where b: "process_body lib out msg = (Some e, evs)"
    using assms by (cases "process_body lib out msg") auto
  show ?thesis
    by (cases "out (ErrorLine e)")
      (simp_all add: process_message_def b print_line_def handler_outcome_def)
qed

lemma process_message_returns:
  assumes "fst (process_body lib out msg) = None"
  shows "process_message lib out msg = (None, snd (process_body lib out msg))"
proof -
  obtain evs where b: "process_body lib out msg = (None, evs)"
    using assms by (cases "process_body lib out msg") auto
  show ?thesis by (simp add: process_message_def b)
qed

text \<open>
  Claim C2, as the code has it. When the payload decodes and parses to an object, its five
  lines print and \<open>ack\<close> returns, \<open>process_message\<close> prints those lines, acknowledges
  and returns. In every other case the \<open>try\<close> body raises (the payload does not decode,
  does not parse or is no object, a \<open>print\<close> raises, or \<open>ack\<close> raises) and the handler
  catches it: it prints the error and then calls \<open>nack(requeue=True)\<close>; a message whose
  processing did not complete is never acknowledged. The handler's own \<open>print\<close> and
  \<open>nack\<close> are not guarded: the only exception that can leave \<open>process_message\<close> is one
  that they raise, and when they return \<open>process_message\<close> returns.
\<close>

theorem process_message_settles:
  "(parsed_object lib msg = Some items \<and> list_all (\<lambda>p. out p = None) (processing_lines items) \<and>
    ack_outcome msg = None \<longrightarrow>
      process_message lib out msg = (None, map Print (processing_lines items) @ [Ack])) \<and>
   (parsed_object lib msg = Some items \<and> list_all (\<lambda>p. out p = None) (processing_lines items) \<and>
    ack_outcome msg = Some e \<longrightarrow>
      process_message lib out msg =
        (handler_outcome out msg e,
         map Print (processing_lines items) @ [Ack, Print (ErrorLine e)] @
           (if out (ErrorLine e) = None then [Nack True] else []))) \<and>
   (\<not> (processing_completes lib out msg \<and> ack_outcome msg = None) \<longrightarrow>
      (\<exists>e'. fst (process_body lib out msg) = Some e' \<and>
            process_message lib out msg =
              (handler_outcome out msg e',
               snd (process_body lib out msg) @ Print (ErrorLine e') #
                 (if out (ErrorLine e') = None then [Nack True] else [])))) \<and>
   (\<not> processing_completes lib out msg \<longrightarrow> Ack \<notin> set (snd (process_message lib out msg))) \<and>
   (fst (process_message lib out msg) = Some x \<longrightarrow>
      (\<exists>e'. fst (process_body lib out msg) = Some e' \<and> handler_outcome out msg e' = Some x)) \<and>
   ((\<forall>e'. out (ErrorLine e') = None) \<and> nack_outcome msg = None \<longrightarrow>
      fst (process_message lib out msg) = None)"
proof (intro conjI impI)
  assume h: "parsed_object lib msg = Some items \<and>
    list_all (\<lambda>p. out p = None) (processing_lines items) \<and> ack_outcome msg = None"
  then have b: "process_body lib out msg = (None, map Print (processing_lines items) @ [Ack])"
    using process_body_completes [of lib msg items out] by simp
  show "process_message lib out msg = (None, map Print (processing_lines items) @ [Ack])"
    using process_message_returns [of lib out msg] b by simp
next
  assume h: "parsed_object lib msg = Some items \<and>
    list_all (\<lambda>p. out p = None) (processing_lines items) \<and> ack_outcome msg = Some e"
  then have b: "process_body lib out msg = (Some e, map Print (processing_lines items) @ [Ack])"
    using process_body_completes [of lib msg items out] by simp
  show "process_message lib out msg =
        (handler_outcome out msg e,
         map Print (processing_lines items) @ [Ack, Print (ErrorLine e)] @
           (if out (ErrorLine e) = None then [Nack True] else []))"
    using process_message_handler [of lib out msg e] b by simp
next
  assume h: "\<not> (processing_completes lib out msg \<and> ack_outcome msg = None)"
  have "fst (process_body lib out msg) \<noteq> None"
  proof (cases "processing_completes lib out msg")
    case False
    then show ?thesis using process_body_incomplete by blast
  next
    case True
    then obtain items' where i: "parsed_object lib msg = Some items'"
      "list_all (\<lambda>p. out p = None) (processing_lines items')"
      by (auto simp: processing_completes_def split: option.splits)
    from True h have "ack_outcome msg \<noteq> None" by simp
    then show ?thesis using process_body_completes [OF i] by simp
  qed
  then obtain e' where e': "fst (process_body lib out msg) = Some e'" by auto
  show "\<exists>e'. fst (process_body lib out msg) = Some e' \<and>
            process_message lib out msg =
              (handler_outcome out msg e',
               snd (process_body lib out msg) @ Print (ErrorLine e') #
                 (if out (ErrorLine e') = None then [Nack True] else []))"
    using e' process_message_handler [OF e'] by blast
next
  assume h: "\<not> processing_completes lib out msg"
  then have b: "fst (process_body lib out msg) \<noteq> None" "Ack \<notin> set (snd (process_body lib out msg))"
    using process_body_incomplete by blast+
  then obtain e' where e': "fst (process_body lib out msg) = Some e'" by auto
  show "Ack \<notin> set (snd (process_message lib out msg))"
    using b(2) by (simp add: process_message_handler [OF e'])
next
  assume h: "fst (process_message lib out msg) = Some x"
  show "\<exists>e'. fst (process_body lib out msg) = Some e' \<and> handler_outcome out msg e' = Some x"
  proof (cases "fst (process_body lib out msg)")
    case None
    then show ?thesis using h process_message_returns [OF None] by simp
  next
    case (Some e')
    then show ?thesis using h process_message_handler [OF Some] by simp
  qed
next
  assume h: "(\<forall>e'. out (ErrorLine e') = None) \<and> nack_outcome msg = None"
  show "fst (process_message lib out msg) = None"
  proof (cases "fst (process_body lib out msg)")
    case None
    then show ?thesis using process_message_returns [OF None] by simp
  next
    case (Some e')
    then show ?thesis using h process_message_handler [OF Some] by (simp add: handler_outcome_def)
  qed
qed

theorem process_message_settles_witness:
  "parsed_object (parses_to sample_event) sample_delivery
     = Some [(''message'', JString ''hi''), (''item_id'', JString ''manual'')] \<and>
   process_message (parses_to sample_event) console_ok sample_delivery =
     (None, [Print ProcessingHeader, Print (MessageLine (JString ''hi'')),
             Print (ItemIdLine (JString ''manual'')), Print (TimestampLine (JString ''N/A'')),
             Print RuleLine, Ack]) \<and>
   \<not> processing_completes undecodable console_ok sample_delivery \<and>
   Ack \<notin> set (snd (process_message undecodable console_ok sample_delivery)) \<and>
   fst (process_message undecodable console_ok sample_delivery) = None \<and>
   \<not> processing_completes (parses_to sample_event) console_rejects_message sample_delivery \<and>
   Ack \<notin> set (snd (process_message (parses_to sample_event) console_rejects_message sample_delivery)) \<and>
   fst (process_message (parses_to sample_event) console_rejects_message sample_delivery) = None"
proof -
  let ?items = "[(''message'', JString ''hi''), (''item_id'', JString ''manual'')]"
  have a: "parsed_object (parses_to sample_event) sample_delivery = Some ?items"
    by (simp add: parsed_object_def parses_to_def sample_event_def)
  have l: "processing_lines ?items =
     [ProcessingHeader, MessageLine (JString ''hi''), ItemIdLine (JString ''manual''),
      TimestampLine (JString ''N/A''), RuleLine]"
    by (simp add: processing_lines_def field_value_def)
  have b: "list_all (\<lambda>p. console_ok p = None) (processing_lines ?items)"
    by (simp add: l console_ok_def)
  have c: "ack_outcome sample_delivery = None" "nack_outcome sample_delivery = None"
    by (simp_all add: sample_delivery_def)
  have d: "\<not> processing_completes undecodable console_ok sample_delivery"
    by (simp add: processing_completes_def parsed_object_def undecodable_def)
  have e: "\<not> processing_completes (parses_to sample_event) console_rejects_message sample_delivery"
    by (simp add: processing_completes_def a l console_rejects_message_def)
  have f: "\<forall>e'. console_ok (ErrorLine e') = None" "\<forall>e'. console_rejects_message (ErrorLine e') = None"
    by (simp_all add: console_ok_def console_rejects_message_def)
  from process_message_settles [of "parses_to sample_event" sample_delivery ?items console_ok
      "Exn ''x''" "Exn ''x''"] a b c
  have 1: "process_message (parses_to sample_event) console_ok sample_delivery =
     (None, map Print (processing_lines ?items) @ [Ack])"
    by blast
  from process_message_settles [of undecodable sample_delivery ?items console_ok
      "Exn ''x''" "Exn ''x''"] d c f
  have 2: "Ack \<notin> set (snd (process_message undecodable console_ok sample_delivery)) \<and>
   fst (process_message undecodable console_ok sample_delivery) = None"
    by blast
  from process_message_settles [of "parses_to sample_event" sample_delivery ?items
      console_rejects_message "Exn ''x''" "Exn ''x''"] e c f
  have 3: "Ack \<notin> set (snd (process_message (parses_to sample_event) console_rejects_message sample_delivery)) \<and>
   fst (process_message (parses_to sample_event) console_rejects_message sample_delivery) = None"
    by blast
  from a 1 2 3 d e show ?thesis by (simp add: l)
qed

text \<open>
  A payload that does not decode, on a channel that has closed when the handler calls
  \<open>nack\<close>: the failure is caught, \<open>nack(requeue=True)\<close> raises, and that exception leaves
  \<open>process_message\<close>.
\<close>

theorem process_message_nack_raises:
  "utf8_decode undecodable (body nack_fails_delivery) = Inl (Exn ''invalid start byte'') \<and>
   process_message undecodable console_ok nack_fails_delivery =
     (Some (Exn ''channel closed''), [Print (ErrorLine (Exn ''invalid start byte'')), Nack True])"
  by (simp add: process_message_def process_body_def undecodable_def nack_fails_delivery_def
      console_ok_def print_line_def)







subsection \<open>Decimal text: printing and reading back\<close>

lemma digit_value_char: "d < 10 \<Longrightarrow> digit_value (digit_char d) = Some d"
proof -
  assume "d < 10"
  then have "d \<in> {0, 1, 2, 3, 4, 5, 6, 7, 8, 9}" by auto
  then show ?thesis by (auto simp: digit_char_def digit_value_def)
qed

lemma is_digit_char: "d < 10 \<Longrightarrow> is_digit (digit_char d)"
  by (simp add: is_digit_def digit_value_char)

lemma is_digit_not_space: "is_digit c \<Longrightarrow> \<not> is_space c"
  by (auto simp: is_digit_def is_space_def digit_value_def split: if_splits)

lemma is_digit_not_sign: "is_digit c \<Longrightarrow> c \<noteq> CHR ''-'' \<and> c \<noteq> CHR ''+'' \<and> c \<noteq> CHR ''_''"
  by (auto simp: is_digit_def digit_value_def split: if_splits)

lemma nat_digits_all: "list_all is_digit (nat_digits n)"
proof (induction n rule: nat_digits.induct)
  case (1 n)
  show ?case
  proof (cases "n < 10")
    case True
    then show ?thesis by (subst nat_digits.simps) (simp add: is_digit_char)
  next
    case False
    then show ?thesis using 1 by (subst nat_digits.simps) (simp add: is_digit_char)
  qed
qed

lemma nat_digits_nonempty: "nat_digits n \<noteq> []"
  by (subst nat_digits.simps) simp

lemma digits_value_snoc:
  "digits_value (s @ [c]) = (case digit_value c of Some d \<Rightarrow> 10 * digits_value s + d | None \<Rightarrow> digits_value s)"
  unfolding digits_value_def by simp

lemma digits_value_nat_digits: "digits_value (nat_digits n) = n"
proof (induction n rule: nat_digits.induct)
  case (1 n)
  show ?case
  proof (cases "n < 10")
    case True
    then have "nat_digits n = [] @ [digit_char n]" by (subst nat_digits.simps) simp
    then show ?thesis using True
      by (simp only: digits_value_snoc digit_value_char) (simp add: digits_value_def)
  next
    case False
    then have e: "nat_digits n = nat_digits (n div 10) @ [digit_char (n mod 10)]"
      by (subst nat_digits.simps) simp
    have "digits_value (nat_digits (n div 10)) = n div 10" using 1 False by simp
    then show ?thesis
      by (simp only: e digits_value_snoc) (simp add: digit_value_char)
  qed
qed

lemma no_double_underscore_digits: "list_all is_digit s \<Longrightarrow> no_double_underscore s"
  by (induction s rule: no_double_underscore.induct) (auto dest: is_digit_not_sign)

lemma valid_digits_all: "s \<noteq> [] \<Longrightarrow> list_all is_digit s \<Longrightarrow> valid_digits s"
proof -
  assume ne: "s \<noteq> []" and all: "list_all is_digit s"
  have h: "is_digit (hd s)" using ne all by (cases s) simp_all
  have l: "is_digit (last s)" using ne all by (simp add: list_all_iff)
  have a: "list_all (\<lambda>c. is_digit c \<or> c = CHR ''_'') s" using all by (simp add: list_all_iff)
  show ?thesis using ne h l a no_double_underscore_digits [OF all] by (simp add: valid_digits_def)
qed

lemma strip_id: "s \<noteq> [] \<Longrightarrow> \<not> is_space (hd s) \<Longrightarrow> \<not> is_space (last s) \<Longrightarrow> strip s = s"
proof -
  assume ne: "s \<noteq> []" and h: "\<not> is_space (hd s)" and l: "\<not> is_space (last s)"
  have 1: "dropWhile is_space s = s" using ne h by (cases s) simp_all
  have 2: "dropWhile is_space (rev s) = rev s" using ne l by (cases "rev s") (auto simp: last_rev [symmetric] hd_rev)
  show ?thesis by (simp add: strip_def 1 2)
qed

lemma py_int_nat_digits: "py_int (nat_digits n) = Inr (int n)"
proof -
  let ?s = "nat_digits n"
  have ne: "?s \<noteq> []" by (rule nat_digits_nonempty)
  have all: "list_all is_digit ?s" by (rule nat_digits_all)
  have h: "is_digit (hd ?s)" using ne all by (cases ?s) simp_all
  have l: "is_digit (last ?s)" using ne all by (simp add: list_all_iff)
  have st: "strip ?s = ?s" using strip_id [OF ne] h l is_digit_not_space by blast
  obtain c cs where cs: "?s = c # cs" using ne by (cases ?s) auto
  have c: "c \<noteq> CHR ''-''" "c \<noteq> CHR ''+''" using h cs is_digit_not_sign [of c] by simp_all
  have v: "valid_digits (c # cs)" using valid_digits_all [OF ne all] cs by simp
  have "py_int ?s = Inr (int (digits_value (c # cs)))"
    unfolding py_int_def st by (simp add: cs c v)
  then show ?thesis using cs digits_value_nat_digits [of n] by simp
qed

lemma py_int_neg_digits: "py_int (CHR ''-'' # nat_digits n) = Inr (- int n)"
proof -
  let ?s = "nat_digits n"
  have ne: "?s \<noteq> []" by (rule nat_digits_nonempty)
  have all: "list_all is_digit ?s" by (rule nat_digits_all)
  have l: "is_digit (last ?s)" using ne all by (simp add: list_all_iff)
  have st: "strip (CHR ''-'' # ?s) = CHR ''-'' # ?s"
    using strip_id [of "CHR ''-'' # ?s"] ne l is_digit_not_space [of "last ?s"]
    by (simp add: is_space_def)
  have v: "valid_digits ?s" using valid_digits_all [OF ne all] .
  show ?thesis unfolding py_int_def st by (simp add: v digits_value_nat_digits)
qed

lemma py_int_show_int: "py_int (show_int i) = Inr i"
  by (simp add: show_int_def py_int_nat_digits py_int_neg_digits)

lemma show_int_nonempty: "show_int i \<noteq> []"
  by (simp add: show_int_def nat_digits_nonempty)

lemma show_int_small: "show_int 0 = ''0''" "show_int 1 = ''1''" "show_int 6 = ''6''" "show_int (-12) = ''-12''"
  by (simp_all add: show_int_def nat_digits.simps digit_char_def)

lemma py_int_examples: "py_int '' +1_000 '' = Inr 1000" "py_int ''1__0'' = Inl invalid_literal"
  "py_int ''- 5'' = Inl invalid_literal" "py_int ''007'' = Inr 7"
  by (simp_all add: py_int_def strip_def is_space_def valid_digits_def is_digit_def digits_value_def
      digit_value_def)

subsection \<open>The cache manager\<close>




lemma redis_int_show_int: "int64 m \<Longrightarrow> redis_int (show_int m) = Some m"
  by (simp add: redis_int_def py_int_show_int)

lemma set_counter_step:
  assumes "reachable srv" "counter_reading srv counter_name = Some n" "int64 a" "int64 (n + a)"
  shows "\<exists>srv'. set_counter (Some srv) counter_name a = (Some (n + a), Some srv') \<and>
           reachable srv' \<and>
           map_of (entries srv') (''counter:'' @ counter_name) = Some (show_int (n + a))"
  using assms
  by (simp add: set_counter_def redis_incrby_def counter_reading_def update_conv')

lemma counter_reading_written:
  "map_of (entries srv) (''counter:'' @ counter_name) = Some (show_int m) \<Longrightarrow> int64 m \<Longrightarrow>
   counter_reading srv counter_name = Some m"
  by (simp add: counter_reading_def redis_int_show_int)

lemma get_counter_written:
  "reachable srv \<Longrightarrow> map_of (entries srv) (''counter:'' @ counter_name) = Some (show_int m) \<Longrightarrow>
   get_counter (Some srv) counter_name = Some m"
  by (simp add: get_counter_def redis_get_def show_int_nonempty py_int_show_int)

lemma set_counter_twice:
  assumes r: "reachable srv" and f: "map_of (entries srv) (''counter:'' @ counter_name) = None"
    and a: "int64 a" and b: "int64 b" and ab: "int64 (a + b)"
  shows "fst (set_counter (Some srv) counter_name a) = Some a \<and>
     fst (set_counter (snd (set_counter (Some srv) counter_name a)) counter_name b) = Some (a + b) \<and>
     get_counter (snd (set_counter (snd (set_counter (Some srv) counter_name a)) counter_name b))
       counter_name = Some (a + b)"
proof -
  have r0: "counter_reading srv counter_name = Some 0" using f by (simp add: counter_reading_def)
  obtain s1 where s1: "set_counter (Some srv) counter_name a = (Some (0 + a), Some s1)"
    "reachable s1" "map_of (entries s1) (''counter:'' @ counter_name) = Some (show_int (0 + a))"
    using set_counter_step [OF r r0, of a] a by auto
  have r1: "counter_reading s1 counter_name = Some a"
    using counter_reading_written [of s1 counter_name a] s1(3) a by simp
  obtain s2 where s2: "set_counter (Some s1) counter_name b = (Some (a + b), Some s2)"
    "reachable s2" "map_of (entries s2) (''counter:'' @ counter_name) = Some (show_int (a + b))"
    using set_counter_step [OF s1(2) r1 b ab] by auto
  have g: "get_counter (Some s2) counter_name = Some (a + b)"
    using get_counter_written [OF s2(2) s2(3)] .
  show ?thesis using s1(1) s2(1) g by simp
qed

text \<open>
  Claim C8. For every counter name and every reachable server that holds no value for it:
  reading the counter gives 0; incrementing it by 1 gives 1, then by 5 gives 6, and reading
  it then gives 6. More generally two signed increments \<open>a\<close> and \<open>b\<close> within the server's
  64-bit range leave the counter reading \<open>a + b\<close>. Each increment is one \<open>INCRBY\<close>
  command, which the server executes as one step.
\<close>

theorem counter_increments:
  "reachable srv \<and> map_of (entries srv) (''counter:'' @ counter_name) = None \<longrightarrow>
     get_counter (Some srv) counter_name = Some 0 \<and>
     fst (set_counter (Some srv) counter_name 1) = Some 1 \<and>
     fst (set_counter (snd (set_counter (Some srv) counter_name 1)) counter_name 5) = Some 6 \<and>
     get_counter (snd (set_counter (snd (set_counter (Some srv) counter_name 1)) counter_name 5))
       counter_name = Some 6 \<and>
     (int64 a \<and> int64 b \<and> int64 (a + b) \<longrightarrow>
        get_counter (snd (set_counter (snd (set_counter (Some srv) counter_name a)) counter_name b))
          counter_name = Some (a + b))"
proof
  assume h: "reachable srv \<and> map_of (entries srv) (''counter:'' @ counter_name) = None"
  then have r: "reachable srv" and f: "map_of (entries srv) (''counter:'' @ counter_name) = None"
    by simp_all
  have z: "get_counter (Some srv) counter_name = Some 0"
    using r f by (simp add: get_counter_def redis_get_def)
  have i: "int64 1" "int64 5" "int64 (1 + 5)" by (simp_all add: int64_def)
  note c = set_counter_twice [OF r f i]
  have g: "int64 a \<and> int64 b \<and> int64 (a + b) \<longrightarrow>
        get_counter (snd (set_counter (snd (set_counter (Some srv) counter_name a)) counter_name b))
          counter_name = Some (a + b)"
    using set_counter_twice [OF r f, of a b] by blast
  show "get_counter (Some srv) counter_name = Some 0 \<and>
     fst (set_counter (Some srv) counter_name 1) = Some 1 \<and>
     fst (set_counter (snd (set_counter (Some srv) counter_name 1)) counter_name 5) = Some 6 \<and>
     get_counter (snd (set_counter (snd (set_counter (Some srv) counter_name 1)) counter_name 5))
       counter_name = Some 6 \<and>
     (int64 a \<and> int64 b \<and> int64 (a + b) \<longrightarrow>
        get_counter (snd (set_counter (snd (set_counter (Some srv) counter_name a)) counter_name b))
          counter_name = Some (a + b))"
    using z c g by simp
qed

theorem counter_increments_witness:
  "reachable (sample_server True [(''item:42'', ''{}'')]) \<and>
   map_of (entries (sample_server True [(''item:42'', ''{}'')])) (''counter:'' @ ''items_created'') = None \<and>
   get_counter (Some (sample_server True [(''item:42'', ''{}'')])) ''items_created'' = Some 0 \<and>
   get_counter (snd (set_counter (snd (set_counter (Some (sample_server True [(''item:42'', ''{}'')]))
     ''items_created'' 1)) ''items_created'' 5)) ''items_created'' = Some 6 \<and>
   get_counter (snd (set_counter (snd (set_counter (Some (sample_server True [(''item:42'', ''{}'')]))
     ''items_created'' 7)) ''items_created'' (- 9))) ''items_created'' = Some (- 2)"
proof -
  have a: "reachable (sample_server True [(''item:42'', ''{}'')]) \<and>
    map_of (entries (sample_server True [(''item:42'', ''{}'')])) (''counter:'' @ ''items_created'') = None"
    by (simp add: sample_server_def)
  have b: "int64 7 \<and> int64 (- 9) \<and> int64 (7 + - 9)" by (simp add: int64_def)
  from counter_increments [of "sample_server True [(''item:42'', ''{}'')]" "''items_created''" 7 "- 9"] a b
  have "get_counter (Some (sample_server True [(''item:42'', ''{}'')])) ''items_created'' = Some 0 \<and>
   get_counter (snd (set_counter (snd (set_counter (Some (sample_server True [(''item:42'', ''{}'')]))
     ''items_created'' 1)) ''items_created'' 5)) ''items_created'' = Some 6 \<and>
   get_counter (snd (set_counter (snd (set_counter (Some (sample_server True [(''item:42'', ''{}'')]))
     ''items_created'' 7)) ''items_created'' (- 9))) ''items_created'' = Some (7 + - 9)"
    by blast
  with a show ?thesis by simp
qed

lemma counter_scenario_runs:
  "get_counter (snd (set_counter (snd (set_counter (Some (sample_server True []))
     ''items_created'' 1)) ''items_created'' 5)) ''items_created'' = Some 6"
  by (simp add: set_counter_def get_counter_def redis_incrby_def redis_get_def sample_server_def
      int64_def redis_int_def show_int_small py_int_show_int [of 1, unfolded show_int_small]
      py_int_show_int [of 6, unfolded show_int_small])

subsection \<open>The cache and the write path\<close>






subsection \<open>What the cache reads tell apart\<close>





end
